theory Spec2Isabelle
  imports Complex_Main "HOL-Library.Sublist"
begin

section \<open>Strings and Python values\<close>

text \<open>
  Python strings are modelled as \<^typ>\<open>string\<close>, whose characters are bytes: the model
  covers ASCII text, which tag names, ARIA roles, class names, ids, script URLs and English
  queries are. On ASCII text \<open>str.lower()\<close> maps the capitals to their small letters and
  leaves every other character alone, and so does \<open>lower\<close>. Python's \<open>str.lower()\<close> also
  has lower-case forms for letters beyond ASCII (the Kelvin sign becomes \<open>k\<close>); on such
  input the model says nothing. The general statements below use \<open>lower\<close> only through
  \<open>lower [] = []\<close>, so they read the same for any lower-casing function.
\<close>

definition lower_char :: "char \<Rightarrow> char" where
  "lower_char c =
     (case map_of (zip ''ABCDEFGHIJKLMNOPQRSTUVWXYZ'' ''abcdefghijklmnopqrstuvwxyz'') c of
        Some d \<Rightarrow> d
      | None \<Rightarrow> c)"

definition lower :: "string \<Rightarrow> string" where
  "lower s = map lower_char s"

text \<open>\<open>str_contains k s\<close> is Python's \<open>k in s\<close> on strings: \<open>k\<close> occurs in \<open>s\<close> as a
  contiguous substring. \<open>startswith s p\<close> is \<open>s.startswith(p)\<close>.\<close>

fun str_contains :: "string \<Rightarrow> string \<Rightarrow> bool" where
  "str_contains k [] = (k = [])"
| "str_contains k (c # cs) = (prefix k (c # cs) \<or> str_contains k cs)"

definition startswith :: "string \<Rightarrow> string \<Rightarrow> bool" where
  "startswith s p = prefix p s"

text \<open>\<open>sep.join(xs)\<close>.\<close>

fun join :: "string \<Rightarrow> string list \<Rightarrow> string" where
  "join sep [] = []"
| "join sep [x] = x"
| "join sep (x # y # ys) = x @ sep @ join sep (y # ys)"

text \<open>Decimal rendering of integers, as \<open>str(n)\<close> and f-string interpolation do.\<close>

definition digit_char :: "nat \<Rightarrow> char" where
  "digit_char d = ''0123456789'' ! d"

fun str_nat :: "nat \<Rightarrow> string" where
  "str_nat n = (if n < 10 then [digit_char n] else str_nat (n div 10) @ [digit_char (n mod 10)])"

definition str_int :: "int \<Rightarrow> string" where
  "str_int i = (if i < 0 then CHR ''-'' # str_nat (nat (- i)) else str_nat (nat i))"

text \<open>
  The values a raw element dictionary (\<open>dict[str, Any]\<close>, decoded from the JSON the page
  script returns) holds at the keys the classifier reads: \<open>None\<close>, a string, a list of
  strings, a number or a boolean. The built-in operations the classifier applies to them
  fail on the wrong shape, and the model keeps these failures as values.
\<close>

datatype pyval = PyNone | PyStr string | PyList "string list" | PyInt int | PyBool bool

datatype py_error = AttributeError | TypeError | ValidationError | PlaywrightError

type_synonym element_data = "string \<rightharpoonup> pyval"

text \<open>\<open>d.get(k, dflt)\<close>.\<close>

definition dict_get :: "element_data \<Rightarrow> string \<Rightarrow> pyval \<Rightarrow> pyval" where
  "dict_get d k dflt = (case d k of None \<Rightarrow> dflt | Some v \<Rightarrow> v)"

text \<open>Truth value of an object in a condition.\<close>

fun truthy :: "pyval \<Rightarrow> bool" where
  "truthy PyNone = False"
| "truthy (PyStr s) = (s \<noteq> [])"
| "truthy (PyList xs) = (xs \<noteq> [])"
| "truthy (PyInt i) = (i \<noteq> 0)"
| "truthy (PyBool b) = b"

text \<open>\<open>v.lower()\<close>: only strings have the method.\<close>

fun py_lower :: "pyval \<Rightarrow> py_error + string" where
  "py_lower (PyStr s) = Inr (lower s)"
| "py_lower v = Inl AttributeError"

text \<open>\<open>[c.lower() for c in v]\<close>: a list yields its members, a string its characters, the
  other values are not iterable.\<close>

fun py_lower_each :: "pyval \<Rightarrow> py_error + string list" where
  "py_lower_each (PyList xs) = Inr (map lower xs)"
| "py_lower_each (PyStr s) = Inr (map (\<lambda>c. lower [c]) s)"
| "py_lower_each v = Inl TypeError"

text \<open>\<open>a or b\<close>.\<close>

definition py_or :: "pyval \<Rightarrow> pyval \<Rightarrow> pyval" where
  "py_or a b = (if truthy a then a else b)"

section \<open>Element classifier (\<open>analyzer.detect_element_type\<close>)\<close>

text \<open>The three tables of the function, in declaration order (Python dictionaries keep
  insertion order, and the keyword loops depend on it).\<close>

definition tag_type_map :: "(string \<times> string) list" where
  "tag_type_map =
    [(''nav'', ''navbar''), (''header'', ''header''), (''footer'', ''footer''),
     (''button'', ''button''), (''form'', ''form''), (''input'', ''input''),
     (''textarea'', ''input''), (''select'', ''input''), (''img'', ''image''),
     (''picture'', ''image''), (''svg'', ''image''), (''aside'', ''sidebar''),
     (''section'', ''section''), (''main'', ''container''), (''h1'', ''heading''),
     (''h2'', ''heading''), (''h3'', ''heading''), (''h4'', ''heading''),
     (''h5'', ''heading''), (''h6'', ''heading''), (''a'', ''link'')]"

definition role_type_map :: "(string \<times> string) list" where
  "role_type_map =
    [(''navigation'', ''navbar''), (''banner'', ''header''), (''contentinfo'', ''footer''),
     (''button'', ''button''), (''link'', ''link''), (''form'', ''form''),
     (''textbox'', ''input''), (''dialog'', ''modal''), (''menu'', ''dropdown''),
     (''heading'', ''heading''), (''img'', ''image''), (''complementary'', ''sidebar''),
     (''main'', ''container''), (''region'', ''section'')]"

definition class_keywords :: "(string \<times> string) list" where
  "class_keywords =
    [(''hero'', ''hero''), (''navbar'', ''navbar''), (''nav'', ''navbar''),
     (''navigation'', ''navbar''), (''header'', ''header''), (''footer'', ''footer''),
     (''card'', ''card''), (''btn'', ''button''), (''button'', ''button''),
     (''sidebar'', ''sidebar''), (''modal'', ''modal''), (''dialog'', ''modal''),
     (''dropdown'', ''dropdown''), (''menu'', ''dropdown''), (''form'', ''form''),
     (''container'', ''container''), (''wrapper'', ''container'')]"

text \<open>The inner loop \<open>for keyword, element_type in class_keywords.items(): if keyword in s:
  return element_type\<close>; \<open>None\<close> when the loop ends without returning.\<close>

fun keyword_loop :: "(string \<times> string) list \<Rightarrow> string \<Rightarrow> string option" where
  "keyword_loop [] s = None"
| "keyword_loop ((keyword, element_type) # rest) s =
     (if str_contains keyword s then Some element_type else keyword_loop rest s)"

text \<open>The outer loop \<open>for cls in classes\<close> around it.\<close>

fun classes_loop :: "string list \<Rightarrow> string option" where
  "classes_loop [] = None"
| "classes_loop (cls # rest) =
     (case keyword_loop class_keywords cls of
        Some element_type \<Rightarrow> Some element_type
      | None \<Rightarrow> classes_loop rest)"

definition detect_element_type :: "element_data \<Rightarrow> py_error + string" where
  "detect_element_type element_data =
     (case py_lower (dict_get element_data ''tag_name'' (PyStr [])) of
        Inl e \<Rightarrow> Inl e
      | Inr tag \<Rightarrow>
     (case (if truthy (dict_get element_data ''aria_role'' PyNone)
            then py_lower (dict_get element_data ''aria_role'' (PyStr []))
            else Inr []) of
        Inl e \<Rightarrow> Inl e
      | Inr role \<Rightarrow>
     (case py_lower_each (dict_get element_data ''classes'' (PyList [])) of
        Inl e \<Rightarrow> Inl e
      | Inr classes \<Rightarrow>
     (case py_lower (py_or (dict_get element_data ''element_id'' PyNone) (PyStr [])) of
        Inl e \<Rightarrow> Inl e
      | Inr element_id \<Rightarrow>
     Inr (case map_of tag_type_map tag of
            Some t \<Rightarrow> t
          | None \<Rightarrow>
         (case map_of role_type_map role of
            Some t \<Rightarrow> t
          | None \<Rightarrow>
         (case classes_loop classes of
            Some t \<Rightarrow> t
          | None \<Rightarrow>
         (case keyword_loop class_keywords element_id of
            Some t \<Rightarrow> t
          | None \<Rightarrow> ''other''))))))))"

text \<open>
  The closed enumeration of element types of the specification's data model.
\<close>

definition ElementType :: "string list" where
  "ElementType =
    [''button'', ''link'', ''heading'', ''navbar'', ''header'', ''footer'', ''hero'',
     ''form'', ''input'', ''image'', ''section'', ''card'', ''modal'', ''dropdown'',
     ''sidebar'', ''container'', ''other'']"

text \<open>
  A raw dictionary carries element facts when each key the classifier reads is absent or
  holds a value of the shape the page script produces: the tag name a string, the ARIA role
  and the id a string or \<open>None\<close>, the classes a list of strings. The four readers give the
  facts it carries, an absent or \<open>None\<close> entry reading as "no signal".
\<close>

definition element_facts :: "element_data \<Rightarrow> bool" where
  "element_facts d =
     ((case d ''tag_name'' of None \<Rightarrow> True | Some (PyStr s) \<Rightarrow> True | Some v \<Rightarrow> False) \<and>
      (case d ''aria_role'' of None \<Rightarrow> True | Some PyNone \<Rightarrow> True | Some (PyStr s) \<Rightarrow> True
         | Some v \<Rightarrow> False) \<and>
      (case d ''classes'' of None \<Rightarrow> True | Some (PyList xs) \<Rightarrow> True | Some v \<Rightarrow> False) \<and>
      (case d ''element_id'' of None \<Rightarrow> True | Some PyNone \<Rightarrow> True | Some (PyStr s) \<Rightarrow> True
         | Some v \<Rightarrow> False))"

definition tag_of :: "element_data \<Rightarrow> string" where
  "tag_of d = (case d ''tag_name'' of Some (PyStr s) \<Rightarrow> s | _ \<Rightarrow> [])"

definition role_of :: "element_data \<Rightarrow> string" where
  "role_of d = (case d ''aria_role'' of Some (PyStr s) \<Rightarrow> s | _ \<Rightarrow> [])"

definition classes_of :: "element_data \<Rightarrow> string list" where
  "classes_of d = (case d ''classes'' of Some (PyList xs) \<Rightarrow> xs | _ \<Rightarrow> [])"

definition id_of :: "element_data \<Rightarrow> string" where
  "id_of d = (case d ''element_id'' of Some (PyStr s) \<Rightarrow> s | _ \<Rightarrow> [])"

text \<open>A string matches the keyword table when some keyword occurs in it.\<close>

definition matches_keyword :: "string \<Rightarrow> bool" where
  "matches_keyword s = list_ex (\<lambda>(keyword, element_type). str_contains keyword s) class_keywords"

text \<open>Example elements.\<close>

definition nav_card_element :: element_data where
  "nav_card_element =
     [''tag_name'' \<mapsto> PyStr ''NAV'', ''aria_role'' \<mapsto> PyNone,
      ''classes'' \<mapsto> PyList [''card''], ''element_id'' \<mapsto> PyNone]"

definition heading_button_element :: element_data where
  "heading_button_element =
     [''tag_name'' \<mapsto> PyStr ''H2'', ''aria_role'' \<mapsto> PyStr ''button'',
      ''classes'' \<mapsto> PyList [''btn''], ''element_id'' \<mapsto> PyStr ''footer'']"

definition dialog_card_element :: element_data where
  "dialog_card_element =
     [''tag_name'' \<mapsto> PyStr ''div'', ''aria_role'' \<mapsto> PyStr ''dialog'',
      ''classes'' \<mapsto> PyList [''card''], ''element_id'' \<mapsto> PyNone]"

definition nav_card_class_element :: element_data where
  "nav_card_class_element =
     [''tag_name'' \<mapsto> PyStr ''div'', ''aria_role'' \<mapsto> PyNone,
      ''classes'' \<mapsto> PyList [''wide'', ''Nav-Card''], ''element_id'' \<mapsto> PyStr ''footer'']"

definition main_menu_id_element :: element_data where
  "main_menu_id_element =
     [''tag_name'' \<mapsto> PyStr ''div'', ''aria_role'' \<mapsto> PyNone,
      ''classes'' \<mapsto> PyList [''wide''], ''element_id'' \<mapsto> PyStr ''main-menu'']"

definition plain_div_element :: element_data where
  "plain_div_element =
     [''tag_name'' \<mapsto> PyStr ''div'', ''aria_role'' \<mapsto> PyNone,
      ''classes'' \<mapsto> PyList [], ''element_id'' \<mapsto> PyNone]"


definition bare_div_element :: element_data where
  "bare_div_element = [''tag_name'' \<mapsto> PyStr ''div'']"


section \<open>Data model (\<open>models.py\<close>)\<close>

text \<open>
  The pydantic models, with the fields the analysis reads or writes. String-valued
  \<open>Literal\<close> fields stay strings, as in the source, with the admitted values listed beside
  them. Of \<open>UIElement\<close> the fields \<open>xpath\<close>, \<open>bounding_box\<close>, \<open>computed_styles\<close> and
  \<open>issues\<close> are carried through the analysis unread and are left out.
\<close>

record UIElement =
  element_type :: string
  tag_name :: string
  selector :: string
  text_content :: "string option"
  aria_role :: "string option"
  aria_label :: "string option"
  classes :: "string list"
  element_id :: "string option"
  children_count :: int
  is_visible :: bool

record UIIssue =
  severity :: string
  element_selector :: string
  issue_element_type :: string
  issue_type :: string
  description :: string
  suggested_fix :: string
  css_property :: "string option"
  current_value :: "string option"
  recommended_value :: "string option"
  code_snippet :: "string option"

definition Severity :: "string list" where
  "Severity = [''error'', ''warning'', ''info'']"

definition IssueKind :: "string list" where
  "IssueKind =
    [''layout_broken'', ''overflow_hidden'', ''z_index_conflict'', ''spacing_inconsistent'',
     ''alignment_off'', ''responsive_issue'', ''accessibility_missing'', ''contrast_low'',
     ''element_overlap'', ''invisible_element'', ''empty_container'', ''orphaned_element'',
     ''style_inconsistency'', ''missing_hover_state'', ''broken_flexbox'', ''broken_grid'',
     ''font_issue'', ''color_issue'', ''size_issue'', ''position_issue'', ''other'']"

record FixInstruction =
  priority :: int
  target_description :: string
  fix_selector :: string
  file_hint :: "string option"
  action :: string
  property_changes :: "(string \<times> string) list"
  before_code :: "string option"
  after_code :: "string option"
  explanation :: string

definition Action :: "string list" where
  "Action =
    [''modify_css'', ''add_css'', ''remove_css'', ''modify_html'', ''add_html'',
     ''remove_html'', ''wrap_element'', ''unwrap_element'', ''move_element'', ''add_class'',
     ''remove_class'', ''restructure'']"

record FixInstructionsResult =
  url :: string
  user_query :: string
  interpreted_problem :: string
  affected_elements :: "UIElement list"
  fix_instructions :: "FixInstruction list"
  summary :: string
  css_changes :: string
  html_changes :: string
  additional_recommendations :: "string list"

section \<open>Query interpreter (\<open>analyzer.interpret_user_query\<close>)\<close>

definition QUERY_KEYWORDS :: "(string \<times> string list) list" where
  "QUERY_KEYWORDS =
    [(''navbar'', [''navbar'', ''navigation'', ''nav'', ''menu'', ''top bar'', ''topbar'',
                   ''main menu'']),
     (''header'', [''header'', ''top'', ''banner'', ''head'', ''title area'']),
     (''footer'', [''footer'', ''bottom'', ''foot'', ''copyright'']),
     (''hero'', [''hero'', ''banner'', ''splash'', ''intro'', ''landing'', ''main banner'',
                 ''first section'', ''top section'']),
     (''button'', [''button'', ''btn'', ''cta'', ''call to action'', ''click'', ''submit'']),
     (''form'', [''form'', ''input'', ''field'', ''textbox'', ''login'', ''signup'',
                 ''register'', ''contact form'']),
     (''card'', [''card'', ''tile'', ''box'', ''panel'', ''item'']),
     (''sidebar'', [''sidebar'', ''side bar'', ''side menu'', ''aside'', ''left menu'',
                    ''right menu'']),
     (''modal'', [''modal'', ''popup'', ''dialog'', ''overlay'', ''lightbox'']),
     (''heading'', [''heading'', ''title'', ''h1'', ''h2'', ''headline'']),
     (''image'', [''image'', ''img'', ''picture'', ''photo'', ''icon'', ''logo'']),
     (''section'', [''section'', ''area'', ''part'', ''block'', ''div'']),
     (''layout'', [''layout'', ''grid'', ''flex'', ''spacing'', ''alignment'', ''margin'',
                   ''padding'']),
     (''responsive'', [''mobile'', ''responsive'', ''breakpoint'', ''screen size'',
                       ''viewport'', ''tablet'', ''phone'', ''desktop''])]"

definition issue_keywords :: "(string \<times> string list) list" where
  "issue_keywords =
    [(''broken'', [''broken'', ''messed up'', ''messed'', ''wrong'', ''bad'', ''ugly'',
                   ''terrible'']),
     (''alignment'', [''aligned'', ''alignment'', ''align'', ''center'', ''centered'',
                      ''left'', ''right'', ''off'']),
     (''spacing'', [''spacing'', ''space'', ''gap'', ''margin'', ''padding'', ''too close'',
                    ''too far'', ''crowded'']),
     (''overlap'', [''overlap'', ''overlapping'', ''on top of'', ''behind'', ''in front'']),
     (''size'', [''too big'', ''too small'', ''size'', ''width'', ''height'', ''narrow'',
                 ''wide'']),
     (''visibility'', [''hidden'', ''invisible'', ''can't see'', ''not showing'', ''missing'',
                       ''disappeared'']),
     (''color'', [''color'', ''colour'', ''dark'', ''light'', ''contrast'', ''faded'',
                  ''bright'']),
     (''responsive'', [''mobile'', ''phone'', ''tablet'', ''responsive'', ''screen size'',
                       ''shrink'']),
     (''layout'', [''layout'', ''grid'', ''flex'', ''row'', ''column'', ''side by side'',
                   ''stacked'']),
     (''text'', [''text'', ''font'', ''readable'', ''unreadable'', ''too small'',
                 ''too big'']),
     (''position'', [''position'', ''moved'', ''shifted'', ''wrong place'', ''top'',
                     ''bottom''])]"

text \<open>The inner loop over the keywords of one table entry: a keyword occurring in the
  lower-cased query appends the entry's name to the list unless it is there already.\<close>

fun keywords_loop :: "string \<Rightarrow> string \<Rightarrow> string list \<Rightarrow> string list \<Rightarrow> string list" where
  "keywords_loop query_lower name [] found = found"
| "keywords_loop query_lower name (keyword # rest) found =
     keywords_loop query_lower name rest
       (if str_contains keyword query_lower
        then (if name \<notin> set found then found @ [name] else found)
        else found)"

text \<open>The outer loop over the entries of a table.\<close>

fun table_loop :: "string \<Rightarrow> (string \<times> string list) list \<Rightarrow> string list \<Rightarrow> string list" where
  "table_loop query_lower [] found = found"
| "table_loop query_lower ((name, keywords) # rest) found =
     table_loop query_lower rest (keywords_loop query_lower name keywords found)"

record query_info =
  element_types :: "string list"
  issue_hints :: "string list"
  interpreted_meaning :: string

definition interpret_user_query :: "string \<Rightarrow> query_info" where
  "interpret_user_query query =
     (let query_lower = lower query;
          element_types = table_loop query_lower QUERY_KEYWORDS [];
          issue_hints = table_loop query_lower issue_keywords [];
          elements_str = (if element_types \<noteq> [] then join '', '' element_types
                          else ''general UI'');
          issues_str = (if issue_hints \<noteq> [] then join '', '' issue_hints
                        else ''unknown issues'')
      in \<lparr>element_types = element_types,
          issue_hints = issue_hints,
          interpreted_meaning =
            ''User is reporting '' @ issues_str @ '' with the '' @ elements_str\<rparr>)"

text \<open>The keywords of a table entry that decide whether its name is reported: the name is
  matched by a query when one of them occurs in the lower-cased query.\<close>

definition matched :: "string \<Rightarrow> string \<times> string list \<Rightarrow> bool" where
  "matched query entry = list_ex (\<lambda>keyword. str_contains keyword (lower query)) (snd entry)"

section \<open>Fix synthesizer (\<open>analyzer.generate_fix_instructions_for_query\<close>)\<close>

text \<open>Truth value of an optional string in a condition: \<open>None\<close> and the empty string are
  false.\<close>

definition opt_truthy :: "string option \<Rightarrow> bool" where
  "opt_truthy v = (case v of None \<Rightarrow> False | Some s \<Rightarrow> s \<noteq> [])"

definition action_map :: "(string \<times> string) list" where
  "action_map =
    [(''layout_broken'', ''modify_css''), (''overflow_hidden'', ''modify_css''),
     (''z_index_conflict'', ''modify_css''), (''spacing_inconsistent'', ''modify_css''),
     (''alignment_off'', ''modify_css''), (''element_overlap'', ''modify_css''),
     (''broken_flexbox'', ''modify_css''), (''broken_grid'', ''modify_css''),
     (''accessibility_missing'', ''modify_html''), (''empty_container'', ''remove_html'')]"

text \<open>\<open>create_fix_instruction\<close>. The keyword \<open>code_snippet\<close> it passes is not a field of
  \<open>FixInstruction\<close> and pydantic drops it.\<close>

definition create_fix_instruction :: "UIIssue \<Rightarrow> int \<Rightarrow> FixInstruction" where
  "create_fix_instruction issue prio =
     (let changes =
        (if opt_truthy (css_property issue) \<and> opt_truthy (recommended_value issue)
         then [(the (css_property issue), the (recommended_value issue))]
         else if issue_type issue = ''overflow_hidden''
         then [(''overflow-x'', ''hidden''), (''max-width'', ''100%'')]
         else if issue_type issue = ''z_index_conflict''
         then [(''z-index'', ''10'')]
         else if issue_type issue = ''spacing_inconsistent''
         then [(''padding'', ''1rem''), (''margin'', ''0'')]
         else [])
      in \<lparr>priority = prio,
          target_description =
            ''Fix '' @ issue_type issue @ '' on '' @ issue_element_type issue,
          fix_selector = element_selector issue,
          file_hint = None,
          action = (case map_of action_map (issue_type issue) of
                      Some a \<Rightarrow> a
                    | None \<Rightarrow> ''modify_css''),
          property_changes = changes,
          before_code = None,
          after_code = None,
          explanation = suggested_fix issue\<rparr>)"

text \<open>The generated CSS rule block of an instruction with property changes.\<close>

definition newline :: string where
  "newline = [CHR 0x0A]"

fun css_lines :: "(string \<times> string) list \<Rightarrow> string" where
  "css_lines [] = []"
| "css_lines ((prop, val) # rest) =
     (''    '' @ prop @ '': '' @ val @ '';'' @ newline) @ css_lines rest"

definition css_rule :: "string \<Rightarrow> (string \<times> string) list \<Rightarrow> string" where
  "css_rule sel changes = sel @ '' {'' @ newline @ css_lines changes @ ''}''"

text \<open>The condition under which an issue gets an instruction: no element type was
  interpreted, or some interpreted type occurs in the issue's element type (Python's
  \<open>t in issue.element_type\<close> on two strings is the substring test).\<close>

definition issue_selected :: "string list \<Rightarrow> UIIssue \<Rightarrow> bool" where
  "issue_selected target_types issue =
     (target_types = [] \<or>
      list_ex (\<lambda>t. str_contains t (issue_element_type issue)) target_types)"

text \<open>The loop over the detected issues. Its state is the instruction list, the list of
  CSS rules and the priority counter.\<close>

fun issues_loop ::
  "string list \<Rightarrow> UIIssue list \<Rightarrow> FixInstruction list \<times> string list \<times> int \<Rightarrow>
   FixInstruction list \<times> string list \<times> int" where
  "issues_loop target_types [] state = state"
| "issues_loop target_types (issue # rest) (instructions, css, prio) =
     (if issue_selected target_types issue
      then (let instruction = create_fix_instruction issue prio;
                css' = (if property_changes instruction \<noteq> []
                        then css @ [css_rule (element_selector issue)
                                      (property_changes instruction)]
                        else css)
            in issues_loop target_types rest (instructions @ [instruction], css', prio + 1))
      else issues_loop target_types rest (instructions, css, prio))"

text \<open>The three generic instructions of the query hints.\<close>

definition spacing_fix :: "UIElement \<Rightarrow> int \<Rightarrow> FixInstruction" where
  "spacing_fix el prio =
     \<lparr>priority = prio,
      target_description = ''Adjust spacing on '' @ element_type el,
      fix_selector = selector el,
      file_hint = None,
      action = ''modify_css'',
      property_changes = [(''padding'', ''1rem''), (''margin'', ''0 auto''), (''gap'', ''1rem'')],
      before_code = None,
      after_code = None,
      explanation = ''Standardize spacing on the '' @ element_type el
                    @ '' element to fix layout issues''\<rparr>"

definition alignment_fix :: "UIElement \<Rightarrow> int \<Rightarrow> FixInstruction" where
  "alignment_fix el prio =
     \<lparr>priority = prio,
      target_description = ''Fix alignment on '' @ element_type el,
      fix_selector = selector el,
      file_hint = None,
      action = ''modify_css'',
      property_changes = [(''display'', ''flex''), (''align-items'', ''center''),
                          (''justify-content'', ''center'')],
      before_code = None,
      after_code = None,
      explanation = ''Use flexbox to properly align content within '' @ element_type el\<rparr>"

definition layout_fix :: "UIElement \<Rightarrow> int \<Rightarrow> FixInstruction" where
  "layout_fix el prio =
     \<lparr>priority = prio,
      target_description = ''Fix layout on '' @ element_type el,
      fix_selector = selector el,
      file_hint = None,
      action = ''modify_css'',
      property_changes = [(''display'', ''flex''), (''flex-direction'', ''row''),
                          (''flex-wrap'', ''wrap''), (''gap'', ''1rem'')],
      before_code = None,
      after_code = None,
      explanation = ''Apply proper flexbox layout to '' @ element_type el\<rparr>"

text \<open>The loop \<open>for el in affected_elements[:n]\<close> of one hint; its state is the instruction
  list and the priority counter.\<close>

fun elements_loop ::
  "(UIElement \<Rightarrow> int \<Rightarrow> FixInstruction) \<Rightarrow> UIElement list \<Rightarrow> FixInstruction list \<times> int \<Rightarrow>
   FixInstruction list \<times> int" where
  "elements_loop fix [] state = state"
| "elements_loop fix (el # rest) (instructions, prio) =
     elements_loop fix rest (instructions @ [fix el prio], prio + 1)"

text \<open>The body of the loop over the issue hints, and the loop.\<close>

definition hint_step ::
  "UIElement list \<Rightarrow> string \<Rightarrow> FixInstruction list \<times> int \<Rightarrow> FixInstruction list \<times> int" where
  "hint_step affected hint state =
     (if hint = ''spacing'' \<and> affected \<noteq> []
      then elements_loop spacing_fix (take 3 affected) state
      else if hint = ''alignment'' \<and> affected \<noteq> []
      then elements_loop alignment_fix (take 3 affected) state
      else if hint = ''layout'' \<and> affected \<noteq> []
      then elements_loop layout_fix (take 2 affected) state
      else state)"

fun hints_loop ::
  "UIElement list \<Rightarrow> string list \<Rightarrow> FixInstruction list \<times> int \<Rightarrow> FixInstruction list \<times> int" where
  "hints_loop affected [] state = state"
| "hints_loop affected (hint # rest) state =
     hints_loop affected rest (hint_step affected hint state)"

definition generate_recommendations :: "query_info \<Rightarrow> UIElement list \<Rightarrow> string list" where
  "generate_recommendations info elements =
     (let types = map element_type elements;
          hints = issue_hints info
      in (if ''navbar'' \<notin> set types
          then [''Consider adding a proper <nav> element with role='navigation' for better accessibility'']
          else [])
       @ (if ''footer'' \<notin> set types
          then [''Consider adding a <footer> element for site information and links'']
          else [])
       @ (if ''responsive'' \<in> set hints
          then [''Add CSS media queries to handle different screen sizes'',
                ''Use relative units (rem, %, vw) instead of fixed pixels for better responsiveness'']
          else [])
       @ (if ''layout'' \<in> set hints
          then [''Consider using CSS Grid or Flexbox for complex layouts'',
                ''Use a consistent spacing system (e.g., 0.5rem, 1rem, 2rem)'']
          else []))"

text \<open>\<open>generate_fix_instructions_for_query\<close>; the page handle it receives is not used.\<close>

definition generate_fix_instructions_for_query ::
  "string \<Rightarrow> string \<Rightarrow> UIElement list \<Rightarrow> UIIssue list \<Rightarrow> FixInstructionsResult" where
  "generate_fix_instructions_for_query u query elements issues =
     (let info = interpret_user_query query;
          target_types = element_types info;
          affected = (if target_types \<noteq> []
                      then filter (\<lambda>el. element_type el \<in> set target_types) elements
                      else take 10 elements);
          (instructions, css, prio) = issues_loop target_types issues ([], [], 1);
          (instructions', prio') = hints_loop affected (issue_hints info) (instructions, prio);
          summary_parts =
            (if instructions' \<noteq> []
             then [''Found '' @ str_nat (length instructions') @ '' fixes to apply'']
             else [])
          @ (if affected \<noteq> []
             then [''Affects '' @ str_nat (length affected) @ '' elements'']
             else [])
      in \<lparr>url = u,
          user_query = query,
          interpreted_problem = interpreted_meaning info,
          affected_elements = affected,
          fix_instructions = instructions',
          summary = (if summary_parts \<noteq> [] then join ''. '' summary_parts
                     else ''No specific fixes identified''),
          css_changes = (if css \<noteq> [] then join (newline @ newline) css else []),
          html_changes = [],
          additional_recommendations = generate_recommendations info elements\<rparr>)"

text \<open>
  Vocabulary for the order of the result. \<open>hint_targets\<close> lists, in the order of the hints
  and within a hint in the order of the affected elements, the (hint, element) pairs that
  get a generic instruction; \<open>hint_fix\<close> is the instruction of a hint.
\<close>

definition step_targets :: "UIElement list \<Rightarrow> string \<Rightarrow> UIElement list" where
  "step_targets affected hint =
     (if hint = ''spacing'' \<or> hint = ''alignment'' then take 3 affected
      else if hint = ''layout'' then take 2 affected
      else [])"

definition hint_targets :: "UIElement list \<Rightarrow> string list \<Rightarrow> (string \<times> UIElement) list" where
  "hint_targets affected hints =
     concat (map (\<lambda>hint. map (Pair hint) (step_targets affected hint)) hints)"

definition hint_fix :: "string \<Rightarrow> UIElement \<Rightarrow> int \<Rightarrow> FixInstruction" where
  "hint_fix hint =
     (if hint = ''spacing'' then spacing_fix
      else if hint = ''alignment'' then alignment_fix
      else layout_fix)"

text \<open>\<open>numbered f p xs\<close> applies \<open>f\<close> to the members of \<open>xs\<close> with the consecutive
  priorities \<open>p\<close>, \<open>p + 1\<close>, ...\<close>

fun numbered :: "('a \<Rightarrow> int \<Rightarrow> 'b) \<Rightarrow> int \<Rightarrow> 'a list \<Rightarrow> 'b list" where
  "numbered f p [] = []"
| "numbered f p (x # xs) = f x p # numbered f (p + 1) xs"

text \<open>Example inputs of the synthesizer: two headers and a navigation bar, and three
  detected issues, one of them on a custom element \<open>app-header\<close>.\<close>

definition header_el :: UIElement where
  "header_el =
     \<lparr>element_type = ''header'', tag_name = ''header'', selector = ''header.site'',
      text_content = Some ''Welcome'', aria_role = None, aria_label = None,
      classes = [''site''], element_id = None, children_count = 2, is_visible = True\<rparr>"

definition header2_el :: UIElement where
  "header2_el =
     \<lparr>element_type = ''header'', tag_name = ''div'', selector = ''div.page-header'',
      text_content = Some ''News'', aria_role = Some ''banner'', aria_label = None,
      classes = [''page-header''], element_id = None, children_count = 1,
      is_visible = True\<rparr>"

definition nav_el :: UIElement where
  "nav_el =
     \<lparr>element_type = ''navbar'', tag_name = ''nav'', selector = ''#nav'',
      text_content = None, aria_role = Some ''navigation'', aria_label = None,
      classes = [], element_id = Some ''nav'', children_count = 4, is_visible = True\<rparr>"

definition app_header_issue :: UIIssue where
  "app_header_issue =
     \<lparr>severity = ''warning'', element_selector = ''#top'',
      issue_element_type = ''app-header'', issue_type = ''overflow_hidden'',
      description = ''Element extends beyond viewport causing horizontal scroll'',
      suggested_fix = ''Add 'overflow-x: hidden' to the parent container or 'max-width: 100%' to #top'',
      css_property = None, current_value = None, recommended_value = None,
      code_snippet = None\<rparr>"

definition div_issue :: UIIssue where
  "div_issue =
     \<lparr>severity = ''warning'', element_selector = ''.spacer'',
      issue_element_type = ''container'', issue_type = ''empty_container'',
      description = ''Empty container taking up space'',
      suggested_fix = ''Remove the empty .spacer element or add content to it'',
      css_property = None, current_value = None, recommended_value = None,
      code_snippet = None\<rparr>"

definition contrast_issue :: UIIssue where
  "contrast_issue =
     \<lparr>severity = ''info'', element_selector = ''header.site'',
      issue_element_type = ''header'', issue_type = ''contrast_low'',
      description = ''Low contrast'',
      suggested_fix = ''Review and fix the contrast_low issue on header.site'',
      css_property = Some ''color'', current_value = Some ''#999'',
      recommended_value = Some ''#222'', code_snippet = None\<rparr>"

section \<open>Issue detector (\<open>analyzer.detect_ui_issues\<close>)\<close>

text \<open>
  The page state the detection script reads, one record per element in document order:
  the lower-cased tag name, \<open>el.id\<close> (empty when absent), \<open>el.className\<close>, the right edge
  and height of the bounding rectangle, the computed \<open>position\<close> and \<open>overflow-x\<close>, scroll and
  client width, \<open>parseInt(style.zIndex)\<close> (\<open>None\<close> for \<open>NaN\<close>, as for \<open>auto\<close>), the number of
  children, the trimmed text content, \<open>el.alt\<close> (empty when absent) and the \<open>aria-label\<close>
  attribute. Lengths are rational numbers, which every finite value of the rectangle is.

  \<open>el.className\<close> is a string on HTML elements (empty when the element has no class) and
  an \<open>SVGAnimatedString\<close> object on SVG elements. The object is true in a condition and has
  no method \<open>split\<close>, so the script's \<open>el.className.split(' ')\<close> throws on it; the exception
  leaves the script, and \<open>page.evaluate\<close> raises it in Python.
\<close>

datatype class_name = ClassString string | SVGAnimatedString

record dom_element =
  dom_tag :: string
  dom_id :: string
  dom_class_name :: class_name
  rect_right :: rat
  rect_height :: rat
  style_position :: string
  style_overflow_x :: string
  scroll_width :: int
  client_width :: int
  z_index :: "int option"
  dom_children :: nat
  text_trimmed :: string
  dom_alt :: string
  dom_aria_label :: "string option"

record page_state =
  inner_width :: int
  dom :: "dom_element list"

text \<open>The objects the script pushes; only the z-index rule sets \<open>current_value\<close>.\<close>

record js_issue =
  js_selector :: string
  js_type :: string
  js_description :: string
  js_element_type :: string
  js_current_value :: "string option"

text \<open>\<open>el.id ? '#' + el.id : el.className ? '.' + el.className.split(' ')[0] : fallback\<close>.\<close>

definition issue_selector :: "dom_element \<Rightarrow> string \<Rightarrow> py_error + string" where
  "issue_selector el fallback =
     (if dom_id el \<noteq> [] then Inr (''#'' @ dom_id el)
      else (case dom_class_name el of
              ClassString s \<Rightarrow>
                (if s \<noteq> [] then Inr (''.'' @ takeWhile (\<lambda>c. c \<noteq> CHR '' '') s)
                 else Inr fallback)
            | SVGAnimatedString \<Rightarrow> Inl PlaywrightError))"

text \<open>\<open>issues.push({selector: ..., ...})\<close>: the selector is computed first, and nothing is
  pushed when it throws.\<close>

definition push_issue ::
  "dom_element \<Rightarrow> string \<Rightarrow> (string \<Rightarrow> js_issue) \<Rightarrow> py_error + js_issue list" where
  "push_issue el fallback build =
     (case issue_selector el fallback of
        Inl e \<Rightarrow> Inl e
      | Inr sel \<Rightarrow> Inr [build sel])"

text \<open>The body of the first loop (all elements): the overflow rule, then the z-index
  rule.\<close>

definition overflow_rule :: "int \<Rightarrow> dom_element \<Rightarrow> py_error + js_issue list" where
  "overflow_rule width el =
     (if rect_right el > of_int width \<and> style_position el \<noteq> ''fixed''
      then (if scroll_width el > client_width el \<and> style_overflow_x el = ''visible''
            then push_issue el (dom_tag el) (\<lambda>sel.
                   \<lparr>js_selector = sel,
                    js_type = ''overflow_hidden'',
                    js_description = ''Element extends beyond viewport causing horizontal scroll'',
                    js_element_type = dom_tag el,
                    js_current_value = None\<rparr>)
            else Inr [])
      else Inr [])"

definition z_index_rule :: "dom_element \<Rightarrow> py_error + js_issue list" where
  "z_index_rule el =
     (case z_index el of
        None \<Rightarrow> Inr []
      | Some z \<Rightarrow>
          (if z > 9999
           then push_issue el (dom_tag el) (\<lambda>sel.
                  \<lparr>js_selector = sel,
                   js_type = ''z_index_conflict'',
                   js_description = ''Element has extremely high z-index ('' @ str_int z
                                    @ '') which may cause stacking issues'',
                   js_element_type = dom_tag el,
                   js_current_value = Some (str_int z)\<rparr>)
           else Inr []))"

definition all_elements_rule :: "int \<Rightarrow> dom_element \<Rightarrow> py_error + js_issue list" where
  "all_elements_rule width el =
     (case overflow_rule width el of
        Inl e \<Rightarrow> Inl e
      | Inr overflow \<Rightarrow>
          (case z_index_rule el of
             Inl e \<Rightarrow> Inl e
           | Inr stacking \<Rightarrow> Inr (overflow @ stacking)))"

text \<open>The body of the loop over \<open>div, section, main, article\<close>.\<close>

definition empty_container_rule :: "dom_element \<Rightarrow> py_error + js_issue list" where
  "empty_container_rule el =
     (if dom_children el = 0 \<and> text_trimmed el = []
      then (if rect_height el > 50
            then push_issue el (dom_tag el) (\<lambda>sel.
                   \<lparr>js_selector = sel,
                    js_type = ''empty_container'',
                    js_description = ''Empty container taking up space'',
                    js_element_type = ''container'',
                    js_current_value = None\<rparr>)
            else Inr [])
      else Inr [])"

text \<open>The bodies of the loops over \<open>img\<close> and over \<open>button, a\<close>.\<close>

definition image_rule :: "dom_element \<Rightarrow> py_error + js_issue list" where
  "image_rule el =
     (if dom_alt el = [] \<and> \<not> opt_truthy (dom_aria_label el)
      then push_issue el ''img'' (\<lambda>sel.
             \<lparr>js_selector = sel,
              js_type = ''accessibility_missing'',
              js_description = ''Image missing alt text'',
              js_element_type = ''image'',
              js_current_value = None\<rparr>)
      else Inr [])"

definition interactive_rule :: "dom_element \<Rightarrow> py_error + js_issue list" where
  "interactive_rule el =
     (if text_trimmed el = [] \<and> \<not> opt_truthy (dom_aria_label el)
      then push_issue el (dom_tag el) (\<lambda>sel.
             \<lparr>js_selector = sel,
              js_type = ''accessibility_missing'',
              js_description = ''Interactive element missing accessible name'',
              js_element_type = (if dom_tag el = ''button'' then ''button'' else ''link''),
              js_current_value = None\<rparr>)
      else Inr [])"

text \<open>\<open>elements.forEach(el => ...)\<close> pushing onto the array \<open>issues\<close>: the loop ends at the
  first element on which its body throws.\<close>

fun for_each ::
  "(dom_element \<Rightarrow> py_error + js_issue list) \<Rightarrow> dom_element list \<Rightarrow> js_issue list \<Rightarrow>
   py_error + js_issue list" where
  "for_each body [] issues = Inr issues"
| "for_each body (el # rest) issues =
     (case body el of
        Inl e \<Rightarrow> Inl e
      | Inr pushed \<Rightarrow> for_each body rest (issues @ pushed))"

text \<open>The script: the four loops run in this order on the same array, and the first 20
  issues are returned (\<open>issues.slice(0, 20)\<close>).\<close>

definition detection_script :: "page_state \<Rightarrow> py_error + js_issue list" where
  "detection_script page =
     (case for_each (all_elements_rule (inner_width page)) (dom page) [] of
        Inl e \<Rightarrow> Inl e
      | Inr issues \<Rightarrow>
     (case for_each empty_container_rule
             (filter (\<lambda>el. dom_tag el \<in> {''div'', ''section'', ''main'', ''article''}) (dom page))
             issues of
        Inl e \<Rightarrow> Inl e
      | Inr issues \<Rightarrow>
     (case for_each image_rule (filter (\<lambda>el. dom_tag el = ''img'') (dom page)) issues of
        Inl e \<Rightarrow> Inl e
      | Inr issues \<Rightarrow>
     (case for_each interactive_rule
             (filter (\<lambda>el. dom_tag el \<in> {''button'', ''a''}) (dom page)) issues of
        Inl e \<Rightarrow> Inl e
      | Inr issues \<Rightarrow> Inr (take 20 issues)))))"

text \<open>\<open>generate_fix_suggestion\<close>.\<close>

definition generate_fix_suggestion :: "js_issue \<Rightarrow> string" where
  "generate_fix_suggestion issue_data =
     (let kind = js_type issue_data; sel = js_selector issue_data
      in case map_of
           [(''overflow_hidden'',
               ''Add 'overflow-x: hidden' to the parent container or 'max-width: 100%' to '' @ sel),
            (''z_index_conflict'',
               ''Reduce z-index on '' @ sel
               @ '' to a reasonable value (10-100 for most UI elements)''),
            (''empty_container'', ''Remove the empty '' @ sel @ '' element or add content to it''),
            (''accessibility_missing'', ''Add appropriate alt text or aria-label to '' @ sel),
            (''element_overlap'',
               ''Adjust position or z-index of '' @ sel @ '' to prevent overlap''),
            (''spacing_inconsistent'', ''Standardize padding/margin values on '' @ sel)]
           kind of
           Some text \<Rightarrow> text
         | None \<Rightarrow> ''Review and fix the '' @ kind @ '' issue on '' @ sel)"

text \<open>Construction of a \<open>UIIssue\<close>: pydantic refuses a severity or an issue type outside
  the admitted literals with a validation error.\<close>

definition make_UIIssue ::
  "string \<Rightarrow> string \<Rightarrow> string \<Rightarrow> string \<Rightarrow> string \<Rightarrow> string \<Rightarrow> string option \<Rightarrow>
   py_error + UIIssue" where
  "make_UIIssue sev sel el_type kind descr fix cur =
     (if sev \<in> set Severity \<and> kind \<in> set IssueKind
      then Inr \<lparr>severity = sev, element_selector = sel, issue_element_type = el_type,
                issue_type = kind, description = descr, suggested_fix = fix,
                css_property = None, current_value = cur, recommended_value = None,
                code_snippet = None\<rparr>
      else Inl ValidationError)"

text \<open>The loop \<open>for issue_data in detected_issues\<close>, stopping at the first exception.
  Every object of the script has the keys \<open>selector\<close>, \<open>type\<close>, \<open>description\<close> and
  \<open>element_type\<close>, so the defaults of the \<open>get\<close> calls are never taken.\<close>

fun issue_data_loop :: "js_issue list \<Rightarrow> UIIssue list \<Rightarrow> py_error + UIIssue list" where
  "issue_data_loop [] issues = Inr issues"
| "issue_data_loop (issue_data # rest) issues =
     (case make_UIIssue ''warning'' (js_selector issue_data) (js_element_type issue_data)
             (js_type issue_data) (js_description issue_data)
             (generate_fix_suggestion issue_data) (js_current_value issue_data) of
        Inl e \<Rightarrow> Inl e
      | Inr issue \<Rightarrow> issue_data_loop rest (issues @ [issue]))"

text \<open>\<open>detect_ui_issues\<close>; the element list it receives is not used. An exception of the
  script is the exception of the \<open>await page.evaluate(...)\<close>.\<close>

definition detect_ui_issues :: "page_state \<Rightarrow> py_error + UIIssue list" where
  "detect_ui_issues page =
     (case detection_script page of
        Inl e \<Rightarrow> Inl e
      | Inr detected_issues \<Rightarrow> issue_data_loop detected_issues [])"

text \<open>The issue kinds the script emits, and the \<open>UIIssue\<close> built from one of its
  objects.\<close>

definition script_kinds :: "string list" where
  "script_kinds = [''overflow_hidden'', ''z_index_conflict'', ''empty_container'',
                   ''accessibility_missing'']"

definition to_issue :: "js_issue \<Rightarrow> UIIssue" where
  "to_issue issue_data =
     \<lparr>severity = ''warning'', element_selector = js_selector issue_data,
      issue_element_type = js_element_type issue_data, issue_type = js_type issue_data,
      description = js_description issue_data,
      suggested_fix = generate_fix_suggestion issue_data,
      css_property = None, current_value = js_current_value issue_data,
      recommended_value = None, code_snippet = None\<rparr>"

text \<open>An element is selectable when the script can compute its selector: it has an id,
  or its class name is a string.\<close>

definition selectable :: "dom_element \<Rightarrow> bool" where
  "selectable el = (dom_id el \<noteq> [] \<or> dom_class_name el \<noteq> SVGAnimatedString)"

text \<open>Example pages: an element without defects of a given tag; a page of 25 images
  without alternative text; a page on which every rule fires once; a page with an SVG
  element of high z-index and no id.\<close>

definition plain :: "string \<Rightarrow> dom_element" where
  "plain tag =
     \<lparr>dom_tag = tag, dom_id = [], dom_class_name = ClassString [], rect_right = 800,
      rect_height = 40, style_position = ''static'', style_overflow_x = ''visible'',
      scroll_width = 800, client_width = 800, z_index = None, dom_children = 1,
      text_trimmed = ''text'', dom_alt = ''picture'', dom_aria_label = None\<rparr>"

definition crowded_page :: page_state where
  "crowded_page =
     \<lparr>inner_width = 1280,
      dom = replicate 25 ((plain ''img'')\<lparr>dom_class_name := ClassString ''thumb round'',
                                          dom_alt := [], dom_children := 0,
                                          text_trimmed := []\<rparr>)\<rparr>"

definition mixed_page :: page_state where
  "mixed_page =
     \<lparr>inner_width = 1280,
      dom = [(plain ''table'')\<lparr>dom_id := ''wide'', rect_right := 1500.5, scroll_width := 1500,
                                 client_width := 1280\<rparr>,
             (plain ''div'')\<lparr>dom_class_name := ClassString ''toast top'',
                               z_index := Some 99999\<rparr>,
             (plain ''section'')\<lparr>dom_children := 0, text_trimmed := [], rect_height := 120\<rparr>,
             (plain ''img'')\<lparr>dom_alt := [], dom_children := 0, text_trimmed := []\<rparr>,
             (plain ''a'')\<lparr>text_trimmed := []\<rparr>,
             (plain ''svg'')\<lparr>dom_class_name := SVGAnimatedString, dom_id := ''logo'',
                               z_index := Some 10000\<rparr>,
             (plain ''p'')]\<rparr>"

definition svg_page :: page_state where
  "svg_page =
     \<lparr>inner_width = 1280,
      dom = [(plain ''div''),
             (plain ''svg'')\<lparr>dom_class_name := SVGAnimatedString, z_index := Some 10000\<rparr>]\<rparr>"

section \<open>Tech stack fingerprinter (\<open>framework_detector.detect_tech_stack\<close>)\<close>

record FrameworkInfo =
  name :: string
  version :: "string option"
  confidence :: string
  category :: string
  indicators :: "string list"

record TechStackResult =
  primary_framework :: "string option"
  meta_framework :: "string option"
  css_approach :: "string option"
  frameworks :: "FrameworkInfo list"
  has_react :: bool
  has_vue :: bool
  has_angular :: bool
  has_svelte :: bool
  has_nextjs :: bool
  has_nuxt :: bool
  has_remix :: bool
  has_astro :: bool
  has_gatsby :: bool
  has_vite :: bool
  has_tailwind :: bool
  has_bootstrap :: bool
  has_material_ui :: bool
  has_chakra_ui :: bool
  has_shadcn :: bool
  has_ant_design :: bool
  has_bulma :: bool
  has_foundation :: bool
  has_vanilla_js :: bool
  has_jquery :: bool
  has_typescript :: bool
  uses_css_modules :: bool
  uses_styled_components :: bool
  uses_emotion :: bool
  uses_sass :: bool
  uses_inline_styles :: bool
  uses_css_variables :: bool
  bundler_hints :: "string list"
  stack_summary :: string
  fix_approach :: string

text \<open>\<open>TechStackResult()\<close>: every field at its default.\<close>

definition new_result :: TechStackResult where
  "new_result =
     \<lparr>primary_framework = None, meta_framework = None, css_approach = None, frameworks = [],
      has_react = False, has_vue = False, has_angular = False, has_svelte = False,
      has_nextjs = False, has_nuxt = False, has_remix = False, has_astro = False,
      has_gatsby = False, has_vite = False, has_tailwind = False, has_bootstrap = False,
      has_material_ui = False, has_chakra_ui = False, has_shadcn = False,
      has_ant_design = False, has_bulma = False, has_foundation = False,
      has_vanilla_js = False, has_jquery = False, has_typescript = False,
      uses_css_modules = False, uses_styled_components = False, uses_emotion = False,
      uses_sass = False, uses_inline_styles = False, uses_css_variables = False,
      bundler_hints = [], stack_summary = [], fix_approach = []\<rparr>"

text \<open>
  The page-wide facts the detection script returns. Its \<open>globals\<close> object maps the names
  of the global symbols it found to \<open>true\<close>; the \<open>metas\<close> it also collects are not read by
  the analysis and are left out.
\<close>

record detection_data =
  scripts :: "string list"
  stylesheets :: "string list"
  globals :: "string \<rightharpoonup> bool"
  attributes :: "string list"
  classNames :: "string list"
  dataAttributes :: "string list"
  inlineStylesCount :: int
  cssVariables :: "string list"
  htmlHints :: "string list"

text \<open>The truth value of \<open>detection_data["globals"].get(g)\<close>.\<close>

definition global_seen :: "detection_data \<Rightarrow> string \<Rightarrow> bool" where
  "global_seen d g = (case globals d g of None \<Rightarrow> False | Some b \<Rightarrow> b)"

text \<open>\<open>class_names = set(detection_data["classNames"])\<close>: the distinct class names; only
  membership tests and counts are taken of it.\<close>

definition class_names :: "detection_data \<Rightarrow> string list" where
  "class_names d = remdups (classNames d)"

text \<open>The number of patterns of a list that occur in some class name.\<close>

definition pattern_count :: "string list \<Rightarrow> string list \<Rightarrow> nat" where
  "pattern_count patterns names =
     length (filter (\<lambda>pattern. list_ex (str_contains pattern) names) patterns)"

text \<open>The state the function threads through its checks: the result under construction
  and the local list \<open>frameworks\<close>.\<close>

type_synonym stack_state = "TechStackResult \<times> FrameworkInfo list"

definition check_react :: "detection_data \<Rightarrow> stack_state \<Rightarrow> stack_state" where
  "check_react d = (\<lambda>(result, found).
     if global_seen d ''React'' \<or> global_seen d ''ReactDOM''
        \<or> global_seen d ''__REACT_DEVTOOLS_GLOBAL_HOOK__''
        \<or> ''react_root'' \<in> set (htmlHints d)
        \<or> list_ex (\<lambda>s. str_contains ''react'' (lower s)) (scripts d)
     then (result\<lparr>has_react := True\<rparr>,
           found @ [\<lparr>name = ''React'', version = None,
                      confidence = (if global_seen d ''React'' then ''high'' else ''medium''),
                      category = ''js_framework'',
                      indicators = (if global_seen d ''React''
                                    then [''Global React object found'']
                                    else [''React patterns detected''])\<rparr>])
     else (result, found))"

definition check_vue :: "detection_data \<Rightarrow> stack_state \<Rightarrow> stack_state" where
  "check_vue d = (\<lambda>(result, found).
     if global_seen d ''Vue'' \<or> global_seen d ''__VUE__''
        \<or> list_ex (str_contains ''v-'') (attributes d)
        \<or> list_ex (\<lambda>s. str_contains ''vue'' (lower s)) (scripts d)
     then (result\<lparr>has_vue := True\<rparr>,
           found @ [\<lparr>name = ''Vue.js'', version = None,
                      confidence = (if global_seen d ''Vue'' then ''high'' else ''medium''),
                      category = ''js_framework'',
                      indicators = (if global_seen d ''Vue''
                                    then [''Global Vue object found'']
                                    else [''Vue patterns detected''])\<rparr>])
     else (result, found))"

definition check_angular :: "detection_data \<Rightarrow> stack_state \<Rightarrow> stack_state" where
  "check_angular d = (\<lambda>(result, found).
     if global_seen d ''ng'' \<or> global_seen d ''Zone''
        \<or> ''angular_version'' \<in> set (htmlHints d)
        \<or> list_ex (\<lambda>attr. str_contains ''ng-'' attr \<or> str_contains ''_ng'' attr) (attributes d)
     then (result\<lparr>has_angular := True\<rparr>,
           found @ [\<lparr>name = ''Angular'', version = None,
                      confidence = (if ''angular_version'' \<in> set (htmlHints d)
                                    then ''high'' else ''medium''),
                      category = ''js_framework'',
                      indicators = [''Angular attributes detected'']\<rparr>])
     else (result, found))"

definition check_svelte :: "detection_data \<Rightarrow> stack_state \<Rightarrow> stack_state" where
  "check_svelte d = (\<lambda>(result, found).
     let svelte_classes = filter (\<lambda>c. startswith c ''svelte-'') (classNames d)
     in if svelte_classes \<noteq> [] \<or> global_seen d ''Svelte''
        then (result\<lparr>has_svelte := True\<rparr>,
              found @ [\<lparr>name = ''Svelte'', version = None,
                         confidence = (if svelte_classes \<noteq> [] then ''high'' else ''medium''),
                         category = ''js_framework'',
                         indicators = [''Found '' @ str_nat (length svelte_classes)
                                       @ '' Svelte-scoped classes'']\<rparr>])
        else (result, found))"

definition check_nextjs :: "detection_data \<Rightarrow> stack_state \<Rightarrow> stack_state" where
  "check_nextjs d = (\<lambda>(result, found).
     if global_seen d ''__NEXT_DATA__''
        \<or> ''nextjs_data'' \<in> set (htmlHints d)
        \<or> ''nextjs_root'' \<in> set (htmlHints d)
        \<or> list_ex (str_contains ''_next/'') (scripts d)
     then (result\<lparr>has_nextjs := True, has_react := True\<rparr>,
           found @ [\<lparr>name = ''Next.js'', version = None, confidence = ''high'',
                      category = ''meta_framework'',
                      indicators = [''__NEXT_DATA__ found'', ''_next/ assets detected'']\<rparr>])
     else (result, found))"

definition check_nuxt :: "detection_data \<Rightarrow> stack_state \<Rightarrow> stack_state" where
  "check_nuxt d = (\<lambda>(result, found).
     if global_seen d ''__NUXT__'' \<or> global_seen d ''$nuxt''
        \<or> ''nuxt_data'' \<in> set (htmlHints d)
        \<or> ''nuxt_root'' \<in> set (htmlHints d)
     then (result\<lparr>has_nuxt := True, has_vue := True\<rparr>,
           found @ [\<lparr>name = ''Nuxt'', version = None, confidence = ''high'',
                      category = ''meta_framework'',
                      indicators = [''__NUXT__ global found'']\<rparr>])
     else (result, found))"

definition check_remix :: "detection_data \<Rightarrow> stack_state \<Rightarrow> stack_state" where
  "check_remix d = (\<lambda>(result, found).
     if global_seen d ''__remixContext'' \<or> ''remix_data'' \<in> set (htmlHints d)
     then (result\<lparr>has_remix := True, has_react := True\<rparr>,
           found @ [\<lparr>name = ''Remix'', version = None, confidence = ''high'',
                      category = ''meta_framework'',
                      indicators = [''Remix context found'']\<rparr>])
     else (result, found))"

definition check_astro :: "detection_data \<Rightarrow> stack_state \<Rightarrow> stack_state" where
  "check_astro d = (\<lambda>(result, found).
     if ''astro_island'' \<in> set (htmlHints d)
        \<or> list_ex (str_contains ''data-astro'') (dataAttributes d)
     then (result\<lparr>has_astro := True\<rparr>,
           found @ [\<lparr>name = ''Astro'', version = None, confidence = ''high'',
                      category = ''meta_framework'',
                      indicators = [''Astro islands detected'']\<rparr>])
     else (result, found))"

definition check_gatsby :: "detection_data \<Rightarrow> stack_state \<Rightarrow> stack_state" where
  "check_gatsby d = (\<lambda>(result, found).
     if global_seen d ''___gatsby'' \<or> ''gatsby_data'' \<in> set (htmlHints d)
     then (result\<lparr>has_gatsby := True, has_react := True\<rparr>,
           found @ [\<lparr>name = ''Gatsby'', version = None, confidence = ''high'',
                      category = ''meta_framework'',
                      indicators = [''Gatsby globals found'']\<rparr>])
     else (result, found))"

definition check_vite :: "detection_data \<Rightarrow> stack_state \<Rightarrow> stack_state" where
  "check_vite d = (\<lambda>(result, found).
     if global_seen d ''__vite__''
     then (result\<lparr>has_vite := True, bundler_hints := bundler_hints result @ [''Vite'']\<rparr>,
           found)
     else (result, found))"

definition check_jquery :: "detection_data \<Rightarrow> stack_state \<Rightarrow> stack_state" where
  "check_jquery d = (\<lambda>(result, found).
     if global_seen d ''jQuery'' \<or> global_seen d ''$''
     then (result\<lparr>has_jquery := True\<rparr>,
           found @ [\<lparr>name = ''jQuery'', version = None, confidence = ''high'',
                      category = ''js_framework'',
                      indicators = [''jQuery global found'']\<rparr>])
     else (result, found))"

definition tailwind_patterns :: "string list" where
  "tailwind_patterns =
    [''flex'', ''grid'', ''hidden'', ''block'', ''inline-flex'', ''items-center'',
     ''justify-center'', ''space-x-'', ''space-y-'', ''gap-'', ''rounded-'',
     ''bg-'', ''text-'', ''font-'', ''p-'', ''m-'', ''px-'', ''py-'', ''mx-'', ''my-'',
     ''w-'', ''h-'', ''min-'', ''max-'', ''border-'', ''shadow-'', ''hover:'',
     ''focus:'', ''sm:'', ''md:'', ''lg:'', ''xl:'', ''dark:'']"

definition check_tailwind :: "detection_data \<Rightarrow> stack_state \<Rightarrow> stack_state" where
  "check_tailwind d = (\<lambda>(result, found).
     let tailwind_indicators = pattern_count tailwind_patterns (class_names d)
     in if tailwind_indicators \<ge> 10
        then (result\<lparr>has_tailwind := True\<rparr>,
              found @ [\<lparr>name = ''Tailwind CSS'', version = None,
                         confidence = (if tailwind_indicators \<ge> 15 then ''high''
                                       else ''medium''),
                         category = ''css_framework'',
                         indicators = [''Found '' @ str_nat tailwind_indicators
                                       @ '' Tailwind utility class patterns'']\<rparr>])
        else (result, found))"

definition bootstrap_classes :: "string list" where
  "bootstrap_classes =
    [''container'', ''container-fluid'', ''row'', ''col-'', ''btn'', ''btn-'',
     ''navbar'', ''nav-'', ''card'', ''modal'', ''form-control'', ''table-'']"

definition check_bootstrap :: "detection_data \<Rightarrow> stack_state \<Rightarrow> stack_state" where
  "check_bootstrap d = (\<lambda>(result, found).
     let bootstrap_count = pattern_count bootstrap_classes (class_names d)
     in if bootstrap_count \<ge> 5
           \<or> list_ex (\<lambda>s. str_contains ''bootstrap'' (lower s)) (scripts d @ stylesheets d)
        then (result\<lparr>has_bootstrap := True\<rparr>,
              found @ [\<lparr>name = ''Bootstrap'', version = None,
                         confidence = (if bootstrap_count \<ge> 8 then ''high'' else ''medium''),
                         category = ''css_framework'',
                         indicators = [''Found '' @ str_nat bootstrap_count
                                       @ '' Bootstrap class patterns'']\<rparr>])
        else (result, found))"

definition check_material_ui :: "detection_data \<Rightarrow> stack_state \<Rightarrow> stack_state" where
  "check_material_ui d = (\<lambda>(result, found).
     let mui_classes = filter (\<lambda>c. startswith c ''Mui'' \<or> startswith c ''css-'') (class_names d)
     in if length mui_classes \<ge> 5
        then (result\<lparr>has_material_ui := True\<rparr>,
              found @ [\<lparr>name = ''Material UI'', version = None, confidence = ''high'',
                         category = ''ui_library'',
                         indicators = [''Found '' @ str_nat (length mui_classes)
                                       @ '' MUI classes'']\<rparr>])
        else (result, found))"

definition check_chakra_ui :: "detection_data \<Rightarrow> stack_state \<Rightarrow> stack_state" where
  "check_chakra_ui d = (\<lambda>(result, found).
     let chakra_classes = filter (\<lambda>c. startswith c ''chakra-'') (class_names d)
     in if chakra_classes \<noteq> [] \<or> list_ex (str_contains ''data-chakra'') (dataAttributes d)
        then (result\<lparr>has_chakra_ui := True\<rparr>,
              found @ [\<lparr>name = ''Chakra UI'', version = None, confidence = ''high'',
                         category = ''ui_library'',
                         indicators = [''Chakra UI classes detected'']\<rparr>])
        else (result, found))"

definition check_shadcn :: "detection_data \<Rightarrow> stack_state \<Rightarrow> stack_state" where
  "check_shadcn d = (\<lambda>(result, found).
     let radix_attrs = filter (\<lambda>attr. str_contains ''data-state'' attr
                                 \<or> str_contains ''data-radix'' attr
                                 \<or> str_contains ''data-side'' attr) (dataAttributes d)
     in if radix_attrs \<noteq> [] \<and> has_tailwind result
        then (result\<lparr>has_shadcn := True\<rparr>,
              found @ [\<lparr>name = ''shadcn/ui'', version = None, confidence = ''medium'',
                         category = ''ui_library'',
                         indicators = [''Radix UI primitives + Tailwind detected'']\<rparr>])
        else (result, found))"

definition check_ant_design :: "detection_data \<Rightarrow> stack_state \<Rightarrow> stack_state" where
  "check_ant_design d = (\<lambda>(result, found).
     let ant_classes = filter (\<lambda>c. startswith c ''ant-'' \<or> startswith c ''anticon'')
                         (class_names d)
     in if length ant_classes \<ge> 3
        then (result\<lparr>has_ant_design := True\<rparr>,
              found @ [\<lparr>name = ''Ant Design'', version = None, confidence = ''high'',
                         category = ''ui_library'',
                         indicators = [''Found '' @ str_nat (length ant_classes)
                                       @ '' Ant Design classes'']\<rparr>])
        else (result, found))"

definition bulma_patterns :: "string list" where
  "bulma_patterns = [''column'', ''columns'', ''is-'', ''has-text-'', ''has-background-'']"

definition check_bulma :: "detection_data \<Rightarrow> stack_state \<Rightarrow> stack_state" where
  "check_bulma d = (\<lambda>(result, found).
     let bulma_count = pattern_count bulma_patterns (class_names d)
     in if bulma_count \<ge> 3
        then (result\<lparr>has_bulma := True\<rparr>,
              found @ [\<lparr>name = ''Bulma'', version = None, confidence = ''medium'',
                         category = ''css_framework'',
                         indicators = [''Bulma class patterns detected'']\<rparr>])
        else (result, found))"

definition foundation_patterns :: "string list" where
  "foundation_patterns = [''grid-x'', ''grid-y'', ''cell'', ''small-'', ''medium-'', ''large-'']"

definition check_foundation :: "detection_data \<Rightarrow> stack_state \<Rightarrow> stack_state" where
  "check_foundation d = (\<lambda>(result, found).
     let foundation_count = pattern_count foundation_patterns (class_names d)
     in if foundation_count \<ge> 3
        then (result\<lparr>has_foundation := True\<rparr>,
              found @ [\<lparr>name = ''Foundation'', version = None, confidence = ''medium'',
                         category = ''css_framework'',
                         indicators = [''Foundation class patterns detected'']\<rparr>])
        else (result, found))"

text \<open>The resolution of the CSS approach.\<close>

definition resolve_css_approach :: "detection_data \<Rightarrow> stack_state \<Rightarrow> stack_state" where
  "resolve_css_approach d = (\<lambda>(result, found).
     (if has_tailwind result
      then result\<lparr>css_approach := Some ''tailwind''\<rparr>
      else if has_bootstrap result
      then result\<lparr>css_approach := Some ''bootstrap''\<rparr>
      else if has_material_ui result \<or> has_chakra_ui result \<or> has_ant_design result
      then result\<lparr>css_approach := Some ''component-library''\<rparr>
      else if list_ex (str_contains ''css-'') (class_names d)
      then result\<lparr>uses_css_modules := True, css_approach := Some ''css-modules''\<rparr>
      else if inlineStylesCount d > 20
      then result\<lparr>uses_inline_styles := True, css_approach := Some ''inline-styles''\<rparr>
      else result\<lparr>css_approach := Some ''traditional-css''\<rparr>,
      found))"

definition check_css_variables :: "detection_data \<Rightarrow> stack_state \<Rightarrow> stack_state" where
  "check_css_variables d = (\<lambda>(result, found).
     if length (cssVariables d) > 5
     then (result\<lparr>uses_css_variables := True\<rparr>, found)
     else (result, found))"

definition check_vanilla_js :: "detection_data \<Rightarrow> stack_state \<Rightarrow> stack_state" where
  "check_vanilla_js d = (\<lambda>(result, found).
     if \<not> (has_react result \<or> has_vue result \<or> has_angular result \<or> has_svelte result
           \<or> has_jquery result)
     then (result\<lparr>has_vanilla_js := True\<rparr>,
           found @ [\<lparr>name = ''Vanilla JavaScript'', version = None, confidence = ''low'',
                      category = ''js_framework'',
                      indicators = [''No major JS framework detected'']\<rparr>])
     else (result, found))"

text \<open>The resolution of the primary and the meta framework.\<close>

definition resolve_primary_framework :: "TechStackResult \<Rightarrow> TechStackResult" where
  "resolve_primary_framework result =
     (if has_nextjs result
      then result\<lparr>primary_framework := Some ''Next.js'', meta_framework := Some ''Next.js''\<rparr>
      else if has_nuxt result
      then result\<lparr>primary_framework := Some ''Nuxt'', meta_framework := Some ''Nuxt''\<rparr>
      else if has_remix result
      then result\<lparr>primary_framework := Some ''Remix'', meta_framework := Some ''Remix''\<rparr>
      else if has_gatsby result
      then result\<lparr>primary_framework := Some ''Gatsby'', meta_framework := Some ''Gatsby''\<rparr>
      else if has_astro result
      then result\<lparr>primary_framework := Some ''Astro'', meta_framework := Some ''Astro''\<rparr>
      else if has_react result then result\<lparr>primary_framework := Some ''React''\<rparr>
      else if has_vue result then result\<lparr>primary_framework := Some ''Vue.js''\<rparr>
      else if has_angular result then result\<lparr>primary_framework := Some ''Angular''\<rparr>
      else if has_svelte result then result\<lparr>primary_framework := Some ''Svelte''\<rparr>
      else result\<lparr>primary_framework := Some ''Vanilla JS/HTML''\<rparr>)"

text \<open>\<open>generate_tech_summary\<close>.\<close>

definition css_names :: "(string \<times> string) list" where
  "css_names =
    [(''tailwind'', ''Tailwind CSS''), (''bootstrap'', ''Bootstrap''),
     (''component-library'', ''Component Library CSS''), (''css-modules'', ''CSS Modules''),
     (''inline-styles'', ''Inline Styles''), (''traditional-css'', ''Traditional CSS'')]"

definition generate_tech_summary :: "TechStackResult \<Rightarrow> string" where
  "generate_tech_summary result =
     (let ui_libs =
            (if has_shadcn result then [''shadcn/ui''] else [])
          @ (if has_material_ui result then [''Material UI''] else [])
          @ (if has_chakra_ui result then [''Chakra UI''] else [])
          @ (if has_ant_design result then [''Ant Design''] else []);
          parts =
            (if opt_truthy (meta_framework result)
             then [''Meta Framework: '' @ the (meta_framework result)]
             else if opt_truthy (primary_framework result)
             then [''JS Framework: '' @ the (primary_framework result)]
             else [])
          @ (if opt_truthy (css_approach result)
             then [''CSS: '' @ (case map_of css_names (the (css_approach result)) of
                                  Some css_name \<Rightarrow> css_name
                                | None \<Rightarrow> the (css_approach result))]
             else [])
          @ (if ui_libs \<noteq> [] then [''UI Library: '' @ join '', '' ui_libs] else [])
          @ (if uses_css_variables result then [''Uses CSS Variables''] else [])
      in if parts \<noteq> [] then join '' | '' parts else ''Standard HTML/CSS/JS'')"

text \<open>\<open>generate_fix_approach\<close>.\<close>

definition generate_fix_approach :: "TechStackResult \<Rightarrow> string" where
  "generate_fix_approach result =
     (let approaches =
        (if has_nextjs result
         then [''Next.js: Use className prop for styling. Check globals.css for base styles. ''
               @ ''Component files are typically in /components or /app directories. ''
               @ ''For Tailwind issues, check tailwind.config.js for theme customization.'']
         else if has_nuxt result
         then [''Nuxt: Check <style scoped> sections in .vue files. ''
               @ ''Global styles in assets/css or nuxt.config styles array. ''
               @ ''Use Nuxt DevTools to inspect component hierarchy.'']
         else if has_react result
         then [''React: Styles can be in CSS files, CSS modules (.module.css), ''
               @ ''styled-components, or inline style objects. Check the component file imports.'']
         else if has_vue result
         then [''Vue: Check <style> or <style scoped> in .vue files. ''
               @ ''Scoped styles only affect current component.'']
         else if has_angular result
         then [''Angular: Check component.css/scss files alongside component.ts. ''
               @ ''Use ::ng-deep for child component styling (deprecated but common).'']
         else if has_svelte result
         then [''Svelte: Styles are scoped by default in <style> tags. ''
               @ ''Use :global() for unscoped styles.'']
         else [])
      @ (if has_tailwind result
         then [''Tailwind: Modify classes directly in JSX/HTML. ''
               @ ''For custom values, use arbitrary values like w-[200px] or ''
               @ ''extend theme in tailwind.config.js. ''
               @ ''Use @apply in CSS for reusable class combinations.'']
         else if has_bootstrap result
         then [''Bootstrap: Use Bootstrap utility classes for quick fixes. ''
               @ ''Override in custom CSS with higher specificity. ''
               @ ''Check Bootstrap version for available classes.'']
         else [])
      @ (if has_shadcn result
         then [''shadcn/ui: Components are in /components/ui. ''
               @ ''Modify the component source directly or override with className. ''
               @ ''Theme colors defined in globals.css CSS variables.'']
         else if has_material_ui result
         then [''Material UI: Use sx prop for inline styles or styled() API. ''
               @ ''Theme customization in ThemeProvider. ''
               @ ''Use MUI system props like m, p, display.'']
         else if has_chakra_ui result
         then [''Chakra UI: Use style props directly on components. ''
               @ ''Theme in ChakraProvider. Supports responsive arrays.'']
         else [])
      in if approaches \<noteq> [] then join '' '' approaches
         else ''Standard CSS: Edit stylesheets directly. ''
              @ ''Use browser DevTools to identify the exact CSS rules to modify. ''
              @ ''Check for !important rules that might override changes.'')"

text \<open>The checks of \<open>detect_tech_stack\<close> in the order the function makes them, and the
  function: it runs them on a fresh result, stores the framework list, resolves the primary
  framework and generates the two texts.\<close>

definition stack_checks :: "(detection_data \<Rightarrow> stack_state \<Rightarrow> stack_state) list" where
  "stack_checks =
    [check_react, check_vue, check_angular, check_svelte, check_nextjs, check_nuxt,
     check_remix, check_astro, check_gatsby, check_vite, check_jquery,
     check_tailwind, check_bootstrap, check_material_ui, check_chakra_ui, check_shadcn,
     check_ant_design, check_bulma, check_foundation,
     resolve_css_approach, check_css_variables, check_vanilla_js]"

definition run_checks ::
  "detection_data \<Rightarrow> (detection_data \<Rightarrow> stack_state \<Rightarrow> stack_state) list \<Rightarrow> stack_state \<Rightarrow>
   stack_state" where
  "run_checks d checks state = foldl (\<lambda>state check. check d state) state checks"

definition finish_result :: "stack_state \<Rightarrow> TechStackResult" where
  "finish_result = (\<lambda>(result, found).
     let result = result\<lparr>frameworks := found\<rparr>;
         result = resolve_primary_framework result;
         result = result\<lparr>stack_summary := generate_tech_summary result\<rparr>
     in result\<lparr>fix_approach := generate_fix_approach result\<rparr>)"

definition detect_tech_stack :: "detection_data \<Rightarrow> TechStackResult" where
  "detect_tech_stack d = finish_result (run_checks d stack_checks (new_result, []))"


text \<open>Example page-wide facts: nothing detected; only the React devtools hook global;
  only the \<open>#__next\<close> root element; only the Remix context global; only an inline Gatsby
  script; only the \<open>#__nuxt\<close> root element; a Nuxt page served with Bootstrap.\<close>

definition no_facts :: detection_data where
  "no_facts =
     \<lparr>scripts = [], stylesheets = [], globals = Map.empty, attributes = [], classNames = [],
      dataAttributes = [], inlineStylesCount = 0, cssVariables = [], htmlHints = []\<rparr>"

definition devtools_hook_facts :: detection_data where
  "devtools_hook_facts = no_facts\<lparr>globals := [''__REACT_DEVTOOLS_GLOBAL_HOOK__'' \<mapsto> True]\<rparr>"

definition next_root_facts :: detection_data where
  "next_root_facts = no_facts\<lparr>htmlHints := [''nextjs_root'']\<rparr>"

definition remix_context_facts :: detection_data where
  "remix_context_facts = no_facts\<lparr>globals := [''__remixContext'' \<mapsto> True]\<rparr>"

definition gatsby_data_facts :: detection_data where
  "gatsby_data_facts = no_facts\<lparr>htmlHints := [''gatsby_data'']\<rparr>"

definition nuxt_root_facts :: detection_data where
  "nuxt_root_facts = no_facts\<lparr>htmlHints := [''nuxt_root'']\<rparr>"

definition nuxt_bootstrap_facts :: detection_data where
  "nuxt_bootstrap_facts =
     no_facts\<lparr>globals := [''__NUXT__'' \<mapsto> True, ''Vue'' \<mapsto> True],
              stylesheets := [''https://cdn.example.com/Bootstrap.min.css''],
              classNames := [''css-1x2y3z'', ''row''], inlineStylesCount := 30\<rparr>"

text \<open>The derived implications between the flags of a result: a meta framework implies
  the framework it is built on.\<close>

definition implications_hold :: "TechStackResult \<Rightarrow> bool" where
  "implications_hold result =
     ((has_nextjs result \<longrightarrow> has_react result) \<and>
      (has_remix result \<longrightarrow> has_react result) \<and>
      (has_gatsby result \<longrightarrow> has_react result) \<and>
      (has_nuxt result \<longrightarrow> has_vue result))"


text \<open>The signals of the four meta frameworks built on React or Vue, as the checks test
  them.\<close>

definition nextjs_signal :: "detection_data \<Rightarrow> bool" where
  "nextjs_signal d =
     (global_seen d ''__NEXT_DATA__'' \<or> ''nextjs_data'' \<in> set (htmlHints d)
      \<or> ''nextjs_root'' \<in> set (htmlHints d) \<or> list_ex (str_contains ''_next/'') (scripts d))"

definition nuxt_signal :: "detection_data \<Rightarrow> bool" where
  "nuxt_signal d =
     (global_seen d ''__NUXT__'' \<or> global_seen d ''$nuxt''
      \<or> ''nuxt_data'' \<in> set (htmlHints d) \<or> ''nuxt_root'' \<in> set (htmlHints d))"

definition remix_signal :: "detection_data \<Rightarrow> bool" where
  "remix_signal d = (global_seen d ''__remixContext'' \<or> ''remix_data'' \<in> set (htmlHints d))"

definition gatsby_signal :: "detection_data \<Rightarrow> bool" where
  "gatsby_signal d = (global_seen d ''___gatsby'' \<or> ''gatsby_data'' \<in> set (htmlHints d))"

text \<open>Two properties of a result under construction: a meta framework flag is set only
  on its signal; and, from one result to a later one, the framework flags that are set
  stay set.\<close>

definition flagged_on_signal :: "detection_data \<Rightarrow> TechStackResult \<Rightarrow> bool" where
  "flagged_on_signal d result =
     ((has_nextjs result \<longrightarrow> nextjs_signal d) \<and>
      (has_nuxt result \<longrightarrow> nuxt_signal d) \<and>
      (has_remix result \<longrightarrow> remix_signal d) \<and>
      (has_gatsby result \<longrightarrow> gatsby_signal d))"

definition flags_kept :: "TechStackResult \<Rightarrow> TechStackResult \<Rightarrow> bool" where
  "flags_kept result result' =
     ((has_react result \<longrightarrow> has_react result') \<and>
      (has_vue result \<longrightarrow> has_vue result') \<and>
      (has_nextjs result \<longrightarrow> has_nextjs result') \<and>
      (has_nuxt result \<longrightarrow> has_nuxt result') \<and>
      (has_remix result \<longrightarrow> has_remix result') \<and>
      (has_gatsby result \<longrightarrow> has_gatsby result'))"

section \<open>Properties of the element classifier\<close>

text \<open>On element facts none of the four reads fails, and the classifier is the chain of
  table lookups on the lower-cased facts.\<close>

lemma lower_Nil [simp]: "lower [] = []"
  by (simp add: lower_def)

lemma tag_facts:
  "element_facts d \<Longrightarrow>
     py_lower (dict_get d ''tag_name'' (PyStr [])) = Inr (lower (tag_of d))"
  by (simp add: element_facts_def dict_get_def tag_of_def split: option.splits pyval.splits)

lemma role_facts:
  "element_facts d \<Longrightarrow>
     (if truthy (dict_get d ''aria_role'' PyNone)
      then py_lower (dict_get d ''aria_role'' (PyStr []))
      else Inr []) = Inr (lower (role_of d))"
  by (simp add: element_facts_def dict_get_def role_of_def split: option.splits pyval.splits)

lemma classes_facts:
  "element_facts d \<Longrightarrow>
     py_lower_each (dict_get d ''classes'' (PyList [])) = Inr (map lower (classes_of d))"
  by (simp add: element_facts_def dict_get_def classes_of_def split: option.splits pyval.splits)

lemma id_facts:
  "element_facts d \<Longrightarrow>
     py_lower (py_or (dict_get d ''element_id'' PyNone) (PyStr [])) = Inr (lower (id_of d))"
  by (simp add: element_facts_def dict_get_def py_or_def id_of_def
      split: option.splits pyval.splits)

lemma detect_element_type_facts:
  assumes "element_facts d"
  shows "detect_element_type d =
     Inr (case map_of tag_type_map (lower (tag_of d)) of
            Some t \<Rightarrow> t
          | None \<Rightarrow>
         (case map_of role_type_map (lower (role_of d)) of
            Some t \<Rightarrow> t
          | None \<Rightarrow>
         (case classes_loop (map lower (classes_of d)) of
            Some t \<Rightarrow> t
          | None \<Rightarrow>
         (case keyword_loop class_keywords (lower (id_of d)) of
            Some t \<Rightarrow> t
          | None \<Rightarrow> ''other''))))"
  unfolding detect_element_type_def
  by (simp only: tag_facts [OF assms] role_facts [OF assms] classes_facts [OF assms]
      id_facts [OF assms] sum.case)

text \<open>The keyword loops return the type of the first match, and nothing when no keyword
  occurs.\<close>

lemma keyword_loop_first:
  "\<forall>(k', t') \<in> set ks1. \<not> str_contains k' s \<Longrightarrow> str_contains k s \<Longrightarrow>
     keyword_loop (ks1 @ (k, t) # ks2) s = Some t"
  by (induction ks1) auto

lemma keyword_loop_None:
  "keyword_loop ks s = None \<longleftrightarrow> \<not> list_ex (\<lambda>(k, t). str_contains k s) ks"
  by (induction ks) (auto split: if_splits)

lemma keyword_loop_range:
  "keyword_loop ks s = Some t \<Longrightarrow> t \<in> snd ` set ks"
  by (induction ks) (auto split: if_splits)

lemma classes_loop_first:
  "\<forall>c' \<in> set cs1. keyword_loop class_keywords c' = None \<Longrightarrow>
     keyword_loop class_keywords c = Some t \<Longrightarrow>
     classes_loop (cs1 @ c # cs2) = Some t"
  by (induction cs1) auto

lemma classes_loop_None:
  "classes_loop cs = None \<longleftrightarrow> (\<forall>c \<in> set cs. keyword_loop class_keywords c = None)"
  by (induction cs) (auto split: option.splits)

lemma classes_loop_range:
  "classes_loop cs = Some t \<Longrightarrow> t \<in> snd ` set class_keywords"
  by (induction cs) (auto split: option.splits dest: keyword_loop_range)

lemma matches_keyword_None:
  "keyword_loop class_keywords s = None \<longleftrightarrow> \<not> matches_keyword s"
  by (simp add: keyword_loop_None matches_keyword_def)

lemma tag_types_in_enum: "snd ` set tag_type_map \<subseteq> set ElementType"
  by (simp add: tag_type_map_def ElementType_def)

lemma role_types_in_enum: "snd ` set role_type_map \<subseteq> set ElementType"
  by (simp add: role_type_map_def ElementType_def)

lemma keyword_types_in_enum: "snd ` set class_keywords \<subseteq> set ElementType"
  by (simp add: class_keywords_def ElementType_def)

text \<open>
  Claim C1. On every dictionary carrying element facts the classifier decides by the first
  stage that matches, in the order tag, ARIA role, class keyword, id keyword: a tag in the
  tag table decides alone; otherwise a role in the role table decides; otherwise the first
  class (in list order) in which a keyword occurs decides, by the first such keyword in
  table order; otherwise the first keyword (in table order) occurring in the id decides;
  otherwise the result is \<open>other\<close>. In particular an element with tag \<open>nav\<close> whose class
  list contains \<open>card\<close> is a \<open>navbar\<close>.
\<close>

theorem classifier_precedence:
  assumes "element_facts d"
  shows
   "(\<forall>t. map_of tag_type_map (lower (tag_of d)) = Some t \<longrightarrow> detect_element_type d = Inr t) \<and>
    (\<forall>t. map_of tag_type_map (lower (tag_of d)) = None \<and>
         map_of role_type_map (lower (role_of d)) = Some t \<longrightarrow> detect_element_type d = Inr t) \<and>
    (\<forall>t cs1 c cs2 ks1 k ks2.
         map_of tag_type_map (lower (tag_of d)) = None \<and>
         map_of role_type_map (lower (role_of d)) = None \<and>
         map lower (classes_of d) = cs1 @ c # cs2 \<and>
         (\<forall>c' \<in> set cs1. \<not> matches_keyword c') \<and>
         class_keywords = ks1 @ (k, t) # ks2 \<and>
         (\<forall>(k', t') \<in> set ks1. \<not> str_contains k' c) \<and> str_contains k c
         \<longrightarrow> detect_element_type d = Inr t) \<and>
    (\<forall>t ks1 k ks2.
         map_of tag_type_map (lower (tag_of d)) = None \<and>
         map_of role_type_map (lower (role_of d)) = None \<and>
         (\<forall>c \<in> set (classes_of d). \<not> matches_keyword (lower c)) \<and>
         class_keywords = ks1 @ (k, t) # ks2 \<and>
         (\<forall>(k', t') \<in> set ks1. \<not> str_contains k' (lower (id_of d))) \<and>
         str_contains k (lower (id_of d))
         \<longrightarrow> detect_element_type d = Inr t) \<and>
    (map_of tag_type_map (lower (tag_of d)) = None \<and>
     map_of role_type_map (lower (role_of d)) = None \<and>
     (\<forall>c \<in> set (classes_of d). \<not> matches_keyword (lower c)) \<and>
     \<not> matches_keyword (lower (id_of d))
     \<longrightarrow> detect_element_type d = Inr ''other'') \<and>
    (lower (tag_of d) = ''nav'' \<and> ''card'' \<in> set (classes_of d)
     \<longrightarrow> detect_element_type d = Inr ''navbar'')"
proof -
  note eq = detect_element_type_facts [OF assms]
  have tag: "\<And>t. map_of tag_type_map (lower (tag_of d)) = Some t \<Longrightarrow>
      detect_element_type d = Inr t"
    by (simp add: eq)
  have role: "\<And>t. map_of tag_type_map (lower (tag_of d)) = None \<Longrightarrow>
      map_of role_type_map (lower (role_of d)) = Some t \<Longrightarrow> detect_element_type d = Inr t"
    by (simp add: eq)
  have cls: "detect_element_type d = Inr t"
    if "map_of tag_type_map (lower (tag_of d)) = None"
      "map_of role_type_map (lower (role_of d)) = None"
      "map lower (classes_of d) = cs1 @ c # cs2"
      "\<forall>c' \<in> set cs1. \<not> matches_keyword c'"
      "class_keywords = ks1 @ (k, t) # ks2"
      "\<forall>(k', t') \<in> set ks1. \<not> str_contains k' c" "str_contains k c"
    for t cs1 c cs2 ks1 k ks2
  proof -
    have "keyword_loop class_keywords c = Some t"
      unfolding that(5) using that(6,7) by (rule keyword_loop_first)
    moreover have "\<forall>c' \<in> set cs1. keyword_loop class_keywords c' = None"
      using that(4) by (simp add: matches_keyword_None)
    ultimately have "classes_loop (map lower (classes_of d)) = Some t"
      unfolding that(3) by (rule classes_loop_first [rotated])
    then show ?thesis using that(1,2) by (simp add: eq)
  qed
  have noclass: "classes_loop (map lower (classes_of d)) = None"
    if "\<forall>c \<in> set (classes_of d). \<not> matches_keyword (lower c)"
    using that by (simp add: classes_loop_None matches_keyword_None)
  have ident: "detect_element_type d = Inr t"
    if "map_of tag_type_map (lower (tag_of d)) = None"
      "map_of role_type_map (lower (role_of d)) = None"
      "\<forall>c \<in> set (classes_of d). \<not> matches_keyword (lower c)"
      "class_keywords = ks1 @ (k, t) # ks2"
      "\<forall>(k', t') \<in> set ks1. \<not> str_contains k' (lower (id_of d))"
      "str_contains k (lower (id_of d))"
    for t ks1 k ks2
  proof -
    have "keyword_loop class_keywords (lower (id_of d)) = Some t"
      unfolding that(4) using that(5,6) by (rule keyword_loop_first)
    then show ?thesis using that(1,2) noclass [OF that(3)] by (simp add: eq)
  qed
  have other: "detect_element_type d = Inr ''other''"
    if "map_of tag_type_map (lower (tag_of d)) = None"
      "map_of role_type_map (lower (role_of d)) = None"
      "\<forall>c \<in> set (classes_of d). \<not> matches_keyword (lower c)"
      "\<not> matches_keyword (lower (id_of d))"
  proof -
    have "keyword_loop class_keywords (lower (id_of d)) = None"
      using that(4) by (simp add: matches_keyword_None)
    then show ?thesis using that(1,2) noclass [OF that(3)] by (simp add: eq)
  qed
  have nav: "detect_element_type d = Inr ''navbar''" if "lower (tag_of d) = ''nav''"
    using that by (simp add: eq tag_type_map_def)
  show ?thesis
    using tag role cls ident other nav by blast
qed

lemmas facts_defs = element_facts_def tag_of_def role_of_def classes_of_def id_of_def
  lower_def lower_char_def

theorem classifier_precedence_witness:
  "detect_element_type nav_card_element = Inr ''navbar'' \<and>
   detect_element_type heading_button_element = Inr ''heading'' \<and>
   detect_element_type dialog_card_element = Inr ''modal'' \<and>
   detect_element_type nav_card_class_element = Inr ''navbar'' \<and>
   detect_element_type main_menu_id_element = Inr ''dropdown'' \<and>
   detect_element_type plain_div_element = Inr ''other''"
proof -
  have f1: "element_facts nav_card_element"
    by (simp add: nav_card_element_def element_facts_def)
  have f0: "element_facts heading_button_element"
    by (simp add: heading_button_element_def element_facts_def)
  have f2: "element_facts dialog_card_element"
    by (simp add: dialog_card_element_def element_facts_def)
  have f3: "element_facts nav_card_class_element"
    by (simp add: nav_card_class_element_def element_facts_def)
  have f4: "element_facts main_menu_id_element"
    by (simp add: main_menu_id_element_def element_facts_def)
  have f5: "element_facts plain_div_element"
    by (simp add: plain_div_element_def element_facts_def)
  have w1: "detect_element_type nav_card_element = Inr ''navbar''"
    by (rule classifier_precedence [OF f1, THEN conjunct2, THEN conjunct2, THEN conjunct2,
          THEN conjunct2, THEN conjunct2, rule_format])
      (simp add: nav_card_element_def facts_defs)
  have w0: "detect_element_type heading_button_element = Inr ''heading''"
    by (rule classifier_precedence [OF f0, THEN conjunct1, rule_format])
      (simp add: heading_button_element_def facts_defs tag_type_map_def)
  have w2: "detect_element_type dialog_card_element = Inr ''modal''"
    by (rule classifier_precedence [OF f2, THEN conjunct2, THEN conjunct1, rule_format])
      (simp add: dialog_card_element_def facts_defs tag_type_map_def role_type_map_def)
  have w3: "detect_element_type nav_card_class_element = Inr ''navbar''"
    by (rule classifier_precedence [OF f3, THEN conjunct2, THEN conjunct2, THEN conjunct1,
          rule_format, of "[''wide'']" "''nav-card''" "[]"
          "[(''hero'', ''hero''), (''navbar'', ''navbar'')]" "''nav''" _
          "drop 3 class_keywords"])
      (simp add: nav_card_class_element_def facts_defs tag_type_map_def role_type_map_def
        matches_keyword_def class_keywords_def)
  have w4: "detect_element_type main_menu_id_element = Inr ''dropdown''"
    by (rule classifier_precedence [OF f4, THEN conjunct2, THEN conjunct2, THEN conjunct2,
          THEN conjunct1, rule_format, of "take 13 class_keywords" "''menu''" _
          "drop 14 class_keywords"])
      (simp add: main_menu_id_element_def facts_defs tag_type_map_def role_type_map_def
        matches_keyword_def class_keywords_def)
  have w5: "detect_element_type plain_div_element = Inr ''other''"
    by (rule classifier_precedence [OF f5, THEN conjunct2, THEN conjunct2, THEN conjunct2,
          THEN conjunct2, THEN conjunct1, rule_format])
      (simp add: plain_div_element_def facts_defs tag_type_map_def role_type_map_def
        matches_keyword_def class_keywords_def)
  show ?thesis using w0 w1 w2 w3 w4 w5 by simp
qed

text \<open>
  Claim C9. The classifier is total on element facts: on every dictionary whose tag name,
  role, classes and id are absent, \<open>None\<close> or of the extracted shape, it returns (no
  exception) a member of the closed element type enumeration; and a \<open>div\<close> with no matching
  role, no classes and no id is \<open>other\<close>.
\<close>

theorem classifier_total:
  assumes "element_facts d"
  shows "(\<exists>t. detect_element_type d = Inr t \<and> t \<in> set ElementType) \<and>
         (lower (tag_of d) = ''div'' \<and> map_of role_type_map (lower (role_of d)) = None \<and>
          classes_of d = [] \<and> id_of d = []
          \<longrightarrow> detect_element_type d = Inr ''other'')"
proof -
  note eq = detect_element_type_facts [OF assms]
  have "\<exists>t. detect_element_type d = Inr t \<and> t \<in> set ElementType"
  proof (cases "map_of tag_type_map (lower (tag_of d))")
    case (Some t)
    then have "t \<in> snd ` set tag_type_map" by (force dest: map_of_SomeD)
    with Some show ?thesis using tag_types_in_enum by (auto simp: eq)
  next
    case tag: None
    show ?thesis
    proof (cases "map_of role_type_map (lower (role_of d))")
      case (Some t)
      then have "t \<in> snd ` set role_type_map" by (force dest: map_of_SomeD)
      with Some tag show ?thesis using role_types_in_enum by (auto simp: eq)
    next
      case role: None
      show ?thesis
      proof (cases "classes_loop (map lower (classes_of d))")
        case (Some t)
        then have "t \<in> snd ` set class_keywords" by (rule classes_loop_range)
        with Some tag role show ?thesis using keyword_types_in_enum by (auto simp: eq)
      next
        case cls: None
        show ?thesis
        proof (cases "keyword_loop class_keywords (lower (id_of d))")
          case (Some t)
          then have "t \<in> snd ` set class_keywords" by (rule keyword_loop_range)
          with Some tag role cls show ?thesis using keyword_types_in_enum by (auto simp: eq)
        next
          case None
          with tag role cls show ?thesis by (simp add: eq ElementType_def)
        qed
      qed
    qed
  qed
  moreover have "detect_element_type d = Inr ''other''"
    if "lower (tag_of d) = ''div''" "map_of role_type_map (lower (role_of d)) = None"
      "classes_of d = []" "id_of d = []"
    using that by (simp add: eq tag_type_map_def class_keywords_def)
  ultimately show ?thesis by blast
qed

theorem classifier_total_witness:
  "element_facts bare_div_element \<and>
   detect_element_type bare_div_element = Inr ''other'' \<and> ''other'' \<in> set ElementType"
proof -
  have f: "element_facts bare_div_element"
    by (simp add: bare_div_element_def element_facts_def)
  have "detect_element_type bare_div_element = Inr ''other''"
    by (rule classifier_total [OF f, THEN conjunct2, rule_format])
      (simp add: bare_div_element_def facts_defs role_type_map_def)
  with f classifier_total [OF f] show ?thesis by auto
qed

text \<open>Outside the element facts the Python built-ins do raise, so totality is a property
  of the input domain and not of the model's types.\<close>

lemma detect_element_type_fails:
  "detect_element_type [''tag_name'' \<mapsto> PyNone] = Inl AttributeError"
  "detect_element_type [''tag_name'' \<mapsto> PyStr ''div'', ''classes'' \<mapsto> PyNone] = Inl TypeError"
  by (simp_all add: detect_element_type_def dict_get_def lower_def lower_char_def)


section \<open>Properties of the query interpreter\<close>

text \<open>The loops compute, for a table with distinct names, the names of the matched entries
  in table order.\<close>

lemma keywords_loop_eq:
  "keywords_loop q nm kws found =
     (if list_ex (\<lambda>keyword. str_contains keyword q) kws \<and> nm \<notin> set found
      then found @ [nm] else found)"
  by (induction kws arbitrary: found) auto

lemma table_loop_distinct:
  "distinct found \<Longrightarrow> distinct (table_loop q table found)"
  by (induction table arbitrary: found) (auto simp: keywords_loop_eq)

lemma table_loop_eq:
  "distinct (map fst table) \<Longrightarrow> set found \<inter> fst ` set table = {} \<Longrightarrow>
     table_loop q table found =
       found @ map fst (filter (\<lambda>entry. list_ex (\<lambda>keyword. str_contains keyword q) (snd entry)) table)"
proof (induction table arbitrary: found)
  case Nil
  then show ?case by simp
next
  case (Cons e table)
  obtain nm kws where e: "e = (nm, kws)" by (cases e)
  let ?found = "keywords_loop q nm kws found"
  have "distinct (map fst table)" using Cons.prems by simp
  moreover have "set ?found \<inter> fst ` set table = {}"
    using Cons.prems by (auto simp: e keywords_loop_eq)
  ultimately have "table_loop q table ?found =
      ?found @ map fst (filter (\<lambda>entry. list_ex (\<lambda>keyword. str_contains keyword q) (snd entry)) table)"
    by (rule Cons.IH)
  moreover have "nm \<notin> set found" using Cons.prems by (auto simp: e)
  ultimately show ?case by (simp add: e keywords_loop_eq)
qed

lemma QUERY_KEYWORDS_distinct: "distinct (map fst QUERY_KEYWORDS)"
  by (simp add: QUERY_KEYWORDS_def)

lemma issue_keywords_distinct: "distinct (map fst issue_keywords)"
  by (simp add: issue_keywords_def)

lemma element_types_eq:
  "element_types (interpret_user_query query) = map fst (filter (matched query) QUERY_KEYWORDS)"
  using table_loop_eq [OF QUERY_KEYWORDS_distinct, of "[]" "lower query"]
  by (simp add: interpret_user_query_def Let_def matched_def [abs_def])

lemma issue_hints_eq:
  "issue_hints (interpret_user_query query) = map fst (filter (matched query) issue_keywords)"
  using table_loop_eq [OF issue_keywords_distinct, of "[]" "lower query"]
  by (simp add: interpret_user_query_def Let_def matched_def [abs_def])

lemma navbar3: "element_types (interpret_user_query ''navbar navbar navbar'') = [''navbar'']"
  by code_simp

text \<open>
  Claim C7. The lists of element types and of issue hints the query interpreter returns
  never hold a name twice, and they depend only on which table entries have a keyword
  occurring in the query, not on how often or in which order the keywords occur: two
  queries matching the same entries get the same lists. In particular
  \<open>navbar navbar navbar\<close> yields the element types \<open>[navbar]\<close>.
\<close>

theorem query_interpreter_no_duplicates:
  "distinct (element_types (interpret_user_query query)) \<and>
   distinct (issue_hints (interpret_user_query query)) \<and>
   ((\<forall>entry \<in> set QUERY_KEYWORDS. matched query entry = matched query' entry) \<longrightarrow>
      element_types (interpret_user_query query) = element_types (interpret_user_query query')) \<and>
   ((\<forall>entry \<in> set issue_keywords. matched query entry = matched query' entry) \<longrightarrow>
      issue_hints (interpret_user_query query) = issue_hints (interpret_user_query query')) \<and>
   element_types (interpret_user_query ''navbar navbar navbar'') = [''navbar'']"
proof -
  have "distinct (element_types (interpret_user_query query))"
    by (simp add: interpret_user_query_def Let_def table_loop_distinct)
  moreover have "distinct (issue_hints (interpret_user_query query))"
    by (simp add: interpret_user_query_def Let_def table_loop_distinct)
  moreover have "element_types (interpret_user_query query) =
      element_types (interpret_user_query query')"
    if "\<forall>entry \<in> set QUERY_KEYWORDS. matched query entry = matched query' entry"
  proof -
    have "filter (matched query) QUERY_KEYWORDS = filter (matched query') QUERY_KEYWORDS"
      using that by (intro filter_cong) auto
    then show ?thesis by (simp add: element_types_eq)
  qed
  moreover have "issue_hints (interpret_user_query query) =
      issue_hints (interpret_user_query query')"
    if "\<forall>entry \<in> set issue_keywords. matched query entry = matched query' entry"
  proof -
    have "filter (matched query) issue_keywords = filter (matched query') issue_keywords"
      using that by (intro filter_cong) auto
    then show ?thesis by (simp add: issue_hints_eq)
  qed
  moreover note navbar3
  ultimately show ?thesis by blast
qed


theorem query_interpreter_no_duplicates_witness:
  "element_types (interpret_user_query ''navbar navbar navbar'') =
     element_types (interpret_user_query ''The NAVBAR'') \<and>
   distinct (element_types (interpret_user_query ''navbar navbar navbar''))"
proof -
  have "\<forall>entry \<in> set QUERY_KEYWORDS.
      matched ''navbar navbar navbar'' entry = matched ''The NAVBAR'' entry"
    by code_simp
  then show ?thesis
    using query_interpreter_no_duplicates [of "''navbar navbar navbar''" "''The NAVBAR''"]
    by blast
qed

section \<open>Properties of the fix synthesizer\<close>

text \<open>Both loops append consecutively numbered instructions to the list they receive.\<close>

lemma numbered_append:
  "numbered f p (xs @ ys) = numbered f p xs @ numbered f (p + int (length xs)) ys"
  by (induction xs arbitrary: p) (simp_all add: add.assoc)

lemma numbered_map: "numbered f p (map g xs) = numbered (\<lambda>x. f (g x)) p xs"
  by (induction xs arbitrary: p) simp_all

lemma length_numbered [simp]: "length (numbered f p xs) = length xs"
  by (induction xs arbitrary: p) simp_all

lemma numbered_cong:
  "(\<And>x q. x \<in> set xs \<Longrightarrow> f x q = g x q) \<Longrightarrow> numbered f p xs = numbered g p xs"
  by (induction xs arbitrary: p) simp_all

lemma priority_numbered:
  "(\<And>x q. priority (f x q) = q) \<Longrightarrow>
     map priority (numbered f p xs) = [p..p + int (length xs) - 1]"
proof (induction xs arbitrary: p)
  case Nil
  then show ?case by simp
next
  case (Cons x xs)
  have "[p..p + int (length (x # xs)) - 1] = p # [p + 1..p + 1 + int (length xs) - 1]"
    by (subst upto_rec1) (simp_all add: algebra_simps)
  with Cons show ?case by simp
qed

lemma issues_loop_instructions:
  "fst (issues_loop tt issues (ins, css, p)) =
     ins @ numbered create_fix_instruction p (filter (issue_selected tt) issues)"
  by (induction issues arbitrary: ins css p) (simp_all add: Let_def)

lemma issues_loop_priority:
  "snd (snd (issues_loop tt issues (ins, css, p))) =
     p + int (length (filter (issue_selected tt) issues))"
  by (induction issues arbitrary: ins css p) (simp_all add: Let_def)

lemma elements_loop_eq:
  "elements_loop fix els (ins, p) = (ins @ numbered fix p els, p + int (length els))"
  by (induction els arbitrary: ins p) simp_all

lemma hint_step_eq:
  "hint_step affected hint (ins, p) =
     (ins @ numbered (hint_fix hint) p (step_targets affected hint),
      p + int (length (step_targets affected hint)))"
  by (simp add: hint_step_def step_targets_def hint_fix_def elements_loop_eq)

lemma hint_targets_Cons:
  "hint_targets affected (hint # hints) =
     map (Pair hint) (step_targets affected hint) @ hint_targets affected hints"
  by (simp add: hint_targets_def)

lemma hints_loop_eq:
  "hints_loop affected hints (ins, p) =
     (ins @ numbered (\<lambda>(hint, el). hint_fix hint el) p (hint_targets affected hints),
      p + int (length (hint_targets affected hints)))"
proof (induction hints arbitrary: ins p)
  case Nil
  then show ?case by (simp add: hint_targets_def)
next
  case (Cons hint hints)
  show ?case
    by (simp add: hint_step_eq Cons.IH hint_targets_Cons numbered_append numbered_map
        add.assoc)
qed

lemma fix_instructions_eq:
  "fix_instructions (generate_fix_instructions_for_query u query elements issues) =
     numbered create_fix_instruction 1
       (filter (issue_selected (element_types (interpret_user_query query))) issues)
     @ numbered (\<lambda>(hint, el). hint_fix hint el)
         (1 + int (length (filter (issue_selected (element_types (interpret_user_query query)))
                     issues)))
         (hint_targets
            (affected_elements (generate_fix_instructions_for_query u query elements issues))
            (issue_hints (interpret_user_query query)))"
proof -
  let ?tt = "element_types (interpret_user_query query)"
  obtain ins css p where l1: "issues_loop ?tt issues ([], [], 1) = (ins, css, p)"
    by (cases "issues_loop ?tt issues ([], [], 1)")
  have ins: "ins = numbered create_fix_instruction 1 (filter (issue_selected ?tt) issues)"
    using issues_loop_instructions [of ?tt issues "[]" "[]" 1] l1 by simp
  have p: "p = 1 + int (length (filter (issue_selected ?tt) issues))"
    using issues_loop_priority [of ?tt issues "[]" "[]" 1] l1 by simp
  show ?thesis
    by (simp add: generate_fix_instructions_for_query_def Let_def l1 hints_loop_eq ins p)
qed

lemma priority_fixes [simp]:
  "priority (create_fix_instruction issue q) = q"
  "priority (spacing_fix el q) = q"
  "priority (alignment_fix el q) = q"
  "priority (layout_fix el q) = q"
  by (simp_all add: create_fix_instruction_def Let_def spacing_fix_def alignment_fix_def
      layout_fix_def)

lemma priority_hint_fix [simp]: "priority (hint_fix hint el q) = q"
  by (simp add: hint_fix_def)

text \<open>Every instruction carries an action the model class admits, so none of the
  constructions is refused.\<close>

lemma fix_actions_valid:
  "action (create_fix_instruction issue q) \<in> set Action"
  "action (hint_fix hint el q) \<in> set Action"
proof -
  have "snd ` set action_map \<subseteq> set Action"
    by (simp add: action_map_def Action_def)
  then show "action (create_fix_instruction issue q) \<in> set Action"
    by (cases "map_of action_map (issue_type issue)")
      (auto simp: create_fix_instruction_def Let_def Action_def dest!: map_of_SomeD)
  show "action (hint_fix hint el q) \<in> set Action"
    by (simp add: hint_fix_def spacing_fix_def alignment_fix_def layout_fix_def Action_def)
qed

text \<open>The affected elements are taken from the input element list in its order.\<close>

lemma affected_elements_eq:
  "affected_elements (generate_fix_instructions_for_query u query elements issues) =
     (if element_types (interpret_user_query query) \<noteq> []
      then filter (\<lambda>el. element_type el \<in> set (element_types (interpret_user_query query)))
             elements
      else take 10 elements)"
proof -
  obtain ins css p where
    l1: "issues_loop (element_types (interpret_user_query query)) issues ([], [], 1) =
      (ins, css, p)"
    by (cases "issues_loop (element_types (interpret_user_query query)) issues ([], [], 1)")
  show ?thesis
    by (simp add: generate_fix_instructions_for_query_def Let_def l1 hints_loop_eq)
qed

text \<open>
  Claim C6. For every query, element list and issue list the returned instruction list is
  the instructions of the selected issues, in the order of the issue list, followed by the
  generic instructions of the query hints: hint by hint in the order of the hints, and for
  each hint one instruction for each of the first three (spacing, alignment) or two
  (layout) affected elements, in the order in which these elements stand in the input
  element list. The priorities of the list are exactly \<open>1, 2, ..., n\<close> in list order.
\<close>

theorem fix_priorities_gapless:
  "fix_instructions (generate_fix_instructions_for_query u query elements issues) =
     numbered create_fix_instruction 1
       (filter (issue_selected (element_types (interpret_user_query query))) issues)
     @ numbered (\<lambda>(hint, el). hint_fix hint el)
         (1 + int (length (filter (issue_selected (element_types (interpret_user_query query)))
                     issues)))
         (concat (map (\<lambda>hint. map (Pair hint)
            (if hint = ''spacing'' \<or> hint = ''alignment''
             then take 3
                    (if element_types (interpret_user_query query) \<noteq> []
                     then filter (\<lambda>el. element_type el
                                    \<in> set (element_types (interpret_user_query query))) elements
                     else take 10 elements)
             else if hint = ''layout''
             then take 2
                    (if element_types (interpret_user_query query) \<noteq> []
                     then filter (\<lambda>el. element_type el
                                    \<in> set (element_types (interpret_user_query query))) elements
                     else take 10 elements)
             else []))
            (issue_hints (interpret_user_query query)))) \<and>
   affected_elements (generate_fix_instructions_for_query u query elements issues) =
     (if element_types (interpret_user_query query) \<noteq> []
      then filter (\<lambda>el. element_type el \<in> set (element_types (interpret_user_query query)))
             elements
      else take 10 elements) \<and>
   map priority (fix_instructions (generate_fix_instructions_for_query u query elements issues)) =
     [1..int (length (fix_instructions
                        (generate_fix_instructions_for_query u query elements issues)))]"
proof -
  let ?r = "generate_fix_instructions_for_query u query elements issues"
  let ?sel = "filter (issue_selected (element_types (interpret_user_query query))) issues"
  let ?tg = "hint_targets (affected_elements ?r) (issue_hints (interpret_user_query query))"
  have eq: "fix_instructions ?r =
      numbered create_fix_instruction 1 ?sel
      @ numbered (\<lambda>(hint, el). hint_fix hint el) (1 + int (length ?sel)) ?tg"
    by (rule fix_instructions_eq)
  have "map priority (numbered create_fix_instruction 1 ?sel) = [1..int (length ?sel)]"
    by (subst priority_numbered) simp_all
  moreover have "map priority (numbered (\<lambda>(hint, el). hint_fix hint el) (1 + int (length ?sel)) ?tg)
      = [1 + int (length ?sel)..int (length ?sel) + int (length ?tg)]"
    by (subst priority_numbered) (auto simp: algebra_simps)
  moreover have "[1..int (length ?sel) + int (length ?tg)] =
      [1..int (length ?sel)] @ [1 + int (length ?sel)..int (length ?sel) + int (length ?tg)]"
    using upto_split2 [of 1 "int (length ?sel)" "int (length ?sel) + int (length ?tg)"]
    by (cases "length ?sel = 0") (simp_all add: add.commute)
  ultimately have pri: "map priority (fix_instructions ?r) =
      [1..int (length (fix_instructions ?r))]"
    by (simp add: eq)
  show ?thesis
    by (intro conjI)
      (rule eq [unfolded hint_targets_def step_targets_def affected_elements_eq],
        rule affected_elements_eq, rule pri)
qed

theorem fix_priorities_gapless_witness:
  "fix_instructions (generate_fix_instructions_for_query ''http://x''
      ''the header spacing is off'' [header_el, nav_el, header2_el]
      [app_header_issue, div_issue, contrast_issue]) =
     [create_fix_instruction app_header_issue 1, create_fix_instruction contrast_issue 2,
      alignment_fix header_el 3, alignment_fix header2_el 4,
      spacing_fix header_el 5, spacing_fix header2_el 6] \<and>
   map priority (fix_instructions (generate_fix_instructions_for_query ''http://x''
      ''the header spacing is off'' [header_el, nav_el, header2_el]
      [app_header_issue, div_issue, contrast_issue])) = [1, 2, 3, 4, 5, 6]"
proof -
  let ?q = "''the header spacing is off''"
  let ?r = "generate_fix_instructions_for_query ''http://x'' ?q [header_el, nav_el, header2_el]
      [app_header_issue, div_issue, contrast_issue]"
  note inst = fix_priorities_gapless [of "''http://x''" ?q "[header_el, nav_el, header2_el]"
      "[app_header_issue, div_issue, contrast_issue]"]
  have tt: "element_types (interpret_user_query ?q) = [''header'', ''layout'']"
    and hints: "issue_hints (interpret_user_query ?q) = [''alignment'', ''spacing'']"
    by code_simp+
  have sel: "filter (issue_selected [''header'', ''layout''])
      [app_header_issue, div_issue, contrast_issue] = [app_header_issue, contrast_issue]"
    by code_simp
  have aff: "filter (\<lambda>el. element_type el \<in> set [''header'', ''layout''])
      [header_el, nav_el, header2_el] = [header_el, header2_el]"
    by (simp add: header_el_def nav_el_def header2_el_def)
  have eq: "fix_instructions ?r =
      [create_fix_instruction app_header_issue 1, create_fix_instruction contrast_issue 2,
       alignment_fix header_el 3, alignment_fix header2_el 4,
       spacing_fix header_el 5, spacing_fix header2_el 6]"
    using inst [THEN conjunct1] unfolding tt hints sel aff by (simp add: hint_fix_def)
  have "map priority (fix_instructions ?r) = [1..6]"
    using inst [THEN conjunct2, THEN conjunct2] unfolding eq by simp
  moreover have "[1..6] = [1, 2, 3, 4, 5, 6 :: int]" by code_simp
  ultimately show ?thesis using eq by simp
qed

text \<open>
  Claim C2, as amended. An issue of the input list gets exactly one instruction, in input
  order, if and only if no element type was interpreted or some interpreted element type
  occurs as a substring in the issue's element type (equality is not required); the
  action of the instruction is the entry of the issue kind in the action table, and
  \<open>modify_css\<close> for a kind the table does not list.
\<close>

theorem issue_instructions_by_substring:
  "fix_instructions (generate_fix_instructions_for_query u query elements issues) =
     numbered create_fix_instruction 1
       (filter (\<lambda>issue. element_types (interpret_user_query query) = [] \<or>
                  (\<exists>t \<in> set (element_types (interpret_user_query query)).
                     str_contains t (issue_element_type issue))) issues)
     @ numbered (\<lambda>(hint, el). hint_fix hint el)
         (1 + int (length
            (filter (\<lambda>issue. element_types (interpret_user_query query) = [] \<or>
                       (\<exists>t \<in> set (element_types (interpret_user_query query)).
                          str_contains t (issue_element_type issue))) issues)))
         (hint_targets
            (affected_elements (generate_fix_instructions_for_query u query elements issues))
            (issue_hints (interpret_user_query query))) \<and>
   (\<forall>issue p a. map_of action_map (issue_type issue) = Some a \<longrightarrow>
      action (create_fix_instruction issue p) = a) \<and>
   (\<forall>issue p. issue_type issue \<notin> fst ` set action_map \<longrightarrow>
      action (create_fix_instruction issue p) = ''modify_css'')"
proof -
  have "issue_selected tt = (\<lambda>issue. tt = [] \<or> (\<exists>t \<in> set tt. str_contains t (issue_element_type issue)))"
    for tt
    by (rule ext) (simp add: issue_selected_def list_ex_iff)
  then have "fix_instructions (generate_fix_instructions_for_query u query elements issues) =
     numbered create_fix_instruction 1
       (filter (\<lambda>issue. element_types (interpret_user_query query) = [] \<or>
                  (\<exists>t \<in> set (element_types (interpret_user_query query)).
                     str_contains t (issue_element_type issue))) issues)
     @ numbered (\<lambda>(hint, el). hint_fix hint el)
         (1 + int (length
            (filter (\<lambda>issue. element_types (interpret_user_query query) = [] \<or>
                       (\<exists>t \<in> set (element_types (interpret_user_query query)).
                          str_contains t (issue_element_type issue))) issues)))
         (hint_targets
            (affected_elements (generate_fix_instructions_for_query u query elements issues))
            (issue_hints (interpret_user_query query)))"
    using fix_instructions_eq [of u query elements issues] by simp
  moreover have "action (create_fix_instruction issue p) = a"
    if "map_of action_map (issue_type issue) = Some a" for issue p a
    using that by (simp add: create_fix_instruction_def Let_def)
  moreover have "action (create_fix_instruction issue p) = ''modify_css''"
    if "issue_type issue \<notin> fst ` set action_map" for issue p
  proof -
    have "map_of action_map (issue_type issue) = None"
      using that by (simp add: map_of_eq_None_iff)
    then show ?thesis by (simp add: create_fix_instruction_def Let_def)
  qed
  ultimately show ?thesis by blast
qed

text \<open>
  Claim C2 as stated fails: for the query \<open>header\<close> the only interpreted element type is
  \<open>header\<close>, and an issue on the custom element \<open>app-header\<close>, whose element type equals
  no interpreted type, still gets its instruction.
\<close>

theorem issue_match_counterexample:
  "element_types (interpret_user_query ''header'') = [''header''] \<and>
   issue_element_type app_header_issue = ''app-header'' \<and>
   fix_instructions (generate_fix_instructions_for_query ''http://x'' ''header''
      [nav_el, header_el] [app_header_issue]) = [create_fix_instruction app_header_issue 1]"
  by code_simp

theorem issue_instructions_by_substring_witness:
  "fix_instructions (generate_fix_instructions_for_query ''http://x'' ''header''
      [nav_el, header_el] [app_header_issue, div_issue, contrast_issue]) =
     [create_fix_instruction app_header_issue 1, create_fix_instruction contrast_issue 2] \<and>
   action (create_fix_instruction div_issue 1) = ''remove_html'' \<and>
   action (create_fix_instruction contrast_issue 2) = ''modify_css''"
proof -
  let ?q = "''header''"
  let ?is = "[app_header_issue, div_issue, contrast_issue]"
  let ?r = "generate_fix_instructions_for_query ''http://x'' ?q [nav_el, header_el] ?is"
  note inst = issue_instructions_by_substring [of "''http://x''" ?q "[nav_el, header_el]" ?is]
  have tt: "element_types (interpret_user_query ?q) = [''header'']" by code_simp
  have tg: "hint_targets (affected_elements ?r) (issue_hints (interpret_user_query ?q)) = []"
    by code_simp
  have sel: "filter (\<lambda>issue. [''header''] = [] \<or>
        (\<exists>t \<in> set [''header'']. str_contains t (issue_element_type issue))) ?is =
      [app_header_issue, contrast_issue]"
    by (simp add: app_header_issue_def div_issue_def contrast_issue_def)
  have "fix_instructions ?r =
      [create_fix_instruction app_header_issue 1, create_fix_instruction contrast_issue 2]"
    using inst [THEN conjunct1] unfolding tt tg sel by simp
  moreover have "action (create_fix_instruction div_issue 1) = ''remove_html''"
    by (rule inst [THEN conjunct2, THEN conjunct1, rule_format])
      (simp add: div_issue_def action_map_def)
  moreover have "action (create_fix_instruction contrast_issue 2) = ''modify_css''"
    by (rule inst [THEN conjunct2, THEN conjunct2, rule_format])
      (simp add: contrast_issue_def action_map_def)
  ultimately show ?thesis by simp
qed


section \<open>Properties of the issue detector\<close>

text \<open>What a loop of the script leaves in the array when it ends without an exception,
  and when it does end so.\<close>

lemma for_each_invariant:
  assumes "for_each body els issues = Inr out"
    and "\<And>el pushed. body el = Inr pushed \<Longrightarrow> \<forall>i \<in> set pushed. P i"
    and "\<forall>i \<in> set issues. P i"
  shows "\<forall>i \<in> set out. P i"
  using assms
proof (induction els arbitrary: issues)
  case Nil
  then show ?case by simp
next
  case (Cons el els)
  from Cons.prems(1) obtain pushed where b: "body el = Inr pushed"
    and rest: "for_each body els (issues @ pushed) = Inr out"
    by (auto split: sum.splits)
  have step: "\<forall>i \<in> set (issues @ pushed). P i"
    using Cons.prems(2) [OF b] Cons.prems(3) by auto
  show ?case
  proof (rule Cons.IH [OF rest])
    show "\<And>el pushed. body el = Inr pushed \<Longrightarrow> \<forall>i \<in> set pushed. P i"
      by (rule Cons.prems(2))
    show "\<forall>i \<in> set (issues @ pushed). P i" by (rule step)
  qed
qed

lemma for_each_returns:
  "\<forall>el \<in> set els. \<exists>pushed. body el = Inr pushed \<Longrightarrow>
     \<exists>out. for_each body els issues = Inr out"
  by (induction els arbitrary: issues) auto

lemma push_issue_Inr:
  "push_issue el fallback build = Inr pushed \<Longrightarrow> \<exists>sel. pushed = [build sel]"
  by (auto simp: push_issue_def split: sum.splits)

lemma push_issue_selectable:
  "selectable el \<Longrightarrow> \<exists>pushed. push_issue el fallback build = Inr pushed"
  by (cases "dom_class_name el")
    (auto simp: push_issue_def issue_selector_def selectable_def)

text \<open>The script emits four issue kinds, all admitted by the model class, so the
  construction of the issues does not fail.\<close>

lemma overflow_rule_kinds:
  "overflow_rule w el = Inr pushed \<Longrightarrow> \<forall>i \<in> set pushed. js_type i \<in> set script_kinds"
  by (auto simp: overflow_rule_def script_kinds_def split: if_splits dest!: push_issue_Inr)

lemma z_index_rule_kinds:
  "z_index_rule el = Inr pushed \<Longrightarrow> \<forall>i \<in> set pushed. js_type i \<in> set script_kinds"
  by (auto simp: z_index_rule_def script_kinds_def split: if_splits option.splits
      dest!: push_issue_Inr)

lemma all_elements_rule_kinds:
  "all_elements_rule w el = Inr pushed \<Longrightarrow> \<forall>i \<in> set pushed. js_type i \<in> set script_kinds"
  using overflow_rule_kinds z_index_rule_kinds
  by (fastforce simp: all_elements_rule_def split: sum.splits)

lemma empty_container_rule_kinds:
  "empty_container_rule el = Inr pushed \<Longrightarrow> \<forall>i \<in> set pushed. js_type i \<in> set script_kinds"
  by (auto simp: empty_container_rule_def script_kinds_def split: if_splits
      dest!: push_issue_Inr)

lemma image_rule_kinds:
  "image_rule el = Inr pushed \<Longrightarrow> \<forall>i \<in> set pushed. js_type i \<in> set script_kinds"
  by (auto simp: image_rule_def script_kinds_def split: if_splits dest!: push_issue_Inr)

lemma interactive_rule_kinds:
  "interactive_rule el = Inr pushed \<Longrightarrow> \<forall>i \<in> set pushed. js_type i \<in> set script_kinds"
  by (auto simp: interactive_rule_def script_kinds_def split: if_splits dest!: push_issue_Inr)

lemma detection_script_Inr:
  assumes "detection_script page = Inr js"
  shows "length js \<le> 20" and "\<forall>i \<in> set js. js_type i \<in> set script_kinds"
proof -
  from assms obtain i1 i2 i3 i4 where
    l1: "for_each (all_elements_rule (inner_width page)) (dom page) [] = Inr i1" and
    l2: "for_each empty_container_rule
           (filter (\<lambda>el. dom_tag el \<in> {''div'', ''section'', ''main'', ''article''}) (dom page))
           i1 = Inr i2" and
    l3: "for_each image_rule (filter (\<lambda>el. dom_tag el = ''img'') (dom page)) i2 = Inr i3" and
    l4: "for_each interactive_rule
           (filter (\<lambda>el. dom_tag el \<in> {''button'', ''a''}) (dom page)) i3 = Inr i4" and
    js: "js = take 20 i4"
    unfolding detection_script_def by (auto split: sum.splits)
  show "length js \<le> 20" by (simp add: js)
  have "\<forall>i \<in> set i1. js_type i \<in> set script_kinds"
    by (rule for_each_invariant [OF l1]) (auto dest: all_elements_rule_kinds)
  then have "\<forall>i \<in> set i2. js_type i \<in> set script_kinds"
    by (intro for_each_invariant [OF l2]) (auto dest: empty_container_rule_kinds)
  then have "\<forall>i \<in> set i3. js_type i \<in> set script_kinds"
    by (intro for_each_invariant [OF l3]) (auto dest: image_rule_kinds)
  then have "\<forall>i \<in> set i4. js_type i \<in> set script_kinds"
    by (intro for_each_invariant [OF l4]) (auto dest: interactive_rule_kinds)
  then show "\<forall>i \<in> set js. js_type i \<in> set script_kinds"
    unfolding js by (auto dest: in_set_takeD)
qed

lemma rules_return:
  assumes "selectable el"
  shows "\<exists>pushed. all_elements_rule w el = Inr pushed"
    and "\<exists>pushed. empty_container_rule el = Inr pushed"
    and "\<exists>pushed. image_rule el = Inr pushed"
    and "\<exists>pushed. interactive_rule el = Inr pushed"
proof -
  note p = push_issue_selectable [OF assms]
  have o: "\<exists>pushed. overflow_rule w el = Inr pushed"
    using p by (simp add: overflow_rule_def)
  have z: "\<exists>pushed. z_index_rule el = Inr pushed"
    using p by (simp add: z_index_rule_def split: option.splits)
  from o z show "\<exists>pushed. all_elements_rule w el = Inr pushed"
    by (auto simp: all_elements_rule_def)
  show "\<exists>pushed. empty_container_rule el = Inr pushed"
    using p by (simp add: empty_container_rule_def)
  show "\<exists>pushed. image_rule el = Inr pushed"
    using p by (simp add: image_rule_def)
  show "\<exists>pushed. interactive_rule el = Inr pushed"
    using p by (simp add: interactive_rule_def)
qed

lemma detection_script_returns:
  assumes "list_all selectable (dom page)"
  shows "\<exists>js. detection_script page = Inr js"
proof -
  have sel: "\<forall>el \<in> set (dom page). selectable el"
    using assms by (simp add: list_all_iff)
  obtain i1 where
    l1: "for_each (all_elements_rule (inner_width page)) (dom page) [] = Inr i1"
    using for_each_returns [of "dom page" "all_elements_rule (inner_width page)" "[]"]
      sel rules_return(1) by blast
  obtain i2 where
    l2: "for_each empty_container_rule
           (filter (\<lambda>el. dom_tag el \<in> {''div'', ''section'', ''main'', ''article''}) (dom page))
           i1 = Inr i2"
    using for_each_returns [of _ empty_container_rule i1] sel rules_return(2)
    by (metis (no_types, lifting) filter_is_subset subsetD)
  obtain i3 where
    l3: "for_each image_rule (filter (\<lambda>el. dom_tag el = ''img'') (dom page)) i2 = Inr i3"
    using for_each_returns [of _ image_rule i2] sel rules_return(3)
    by (metis (no_types, lifting) filter_is_subset subsetD)
  obtain i4 where
    l4: "for_each interactive_rule
           (filter (\<lambda>el. dom_tag el \<in> {''button'', ''a''}) (dom page)) i3 = Inr i4"
    using for_each_returns [of _ interactive_rule i3] sel rules_return(4)
    by (metis (no_types, lifting) filter_is_subset subsetD)
  show ?thesis unfolding detection_script_def l1 l2 l3 l4 sum.case by blast
qed

lemma script_kinds_valid: "set script_kinds \<subseteq> set IssueKind"
  by (simp add: script_kinds_def IssueKind_def)

lemma issue_data_loop_valid:
  "\<forall>i \<in> set js. js_type i \<in> set IssueKind \<Longrightarrow>
     issue_data_loop js issues = Inr (issues @ map to_issue js)"
  by (induction js arbitrary: issues)
    (simp_all add: make_UIIssue_def Severity_def to_issue_def)

lemma detect_ui_issues_script:
  "detection_script page = Inr js \<Longrightarrow> detect_ui_issues page = Inr (map to_issue js)"
proof -
  assume js: "detection_script page = Inr js"
  then have "\<forall>i \<in> set js. js_type i \<in> set IssueKind"
    using detection_script_Inr(2) script_kinds_valid by blast
  then show ?thesis by (simp add: detect_ui_issues_def js issue_data_loop_valid)
qed

lemma detect_ui_issues_Inr:
  "detect_ui_issues page = Inr issues \<Longrightarrow>
     \<exists>js. detection_script page = Inr js \<and> issues = map to_issue js"
proof -
  assume run: "detect_ui_issues page = Inr issues"
  then obtain js where js: "detection_script page = Inr js"
    by (cases "detection_script page") (simp_all add: detect_ui_issues_def)
  from detect_ui_issues_script [OF js] run have "issues = map to_issue js" by simp
  with js show ?thesis by blast
qed

lemma detect_ui_issues_returns:
  "list_all selectable (dom page) \<Longrightarrow>
     \<exists>js. detection_script page = Inr js \<and> detect_ui_issues page = Inr (map to_issue js)"
  using detection_script_returns detect_ui_issues_script by blast

text \<open>
  Claim C8. On every page state, a list of issues the detector returns has at most 20
  members, however many elements violate the rules; and the detector does return a list
  on every page whose elements are selectable (on an SVG element without id that trips a
  rule the script throws, and the detector raises instead of returning).
\<close>

theorem issue_cap:
  "(\<forall>issues. detect_ui_issues page = Inr issues \<longrightarrow> length issues \<le> 20) \<and>
   (list_all selectable (dom page) \<longrightarrow>
      (\<exists>issues. detect_ui_issues page = Inr issues \<and> length issues \<le> 20))"
proof -
  have cap: "length issues \<le> 20" if "detect_ui_issues page = Inr issues" for issues
    using detect_ui_issues_Inr [OF that] detection_script_Inr(1) by auto
  moreover have "\<exists>issues. detect_ui_issues page = Inr issues \<and> length issues \<le> 20"
    if "list_all selectable (dom page)"
    using detect_ui_issues_returns [OF that] cap by auto
  ultimately show ?thesis by blast
qed

text \<open>
  Claim C10. On every page state, every issue of a list the detector returns has severity
  \<open>warning\<close>: no rule yields \<open>error\<close> or \<open>info\<close>. On every page whose elements are
  selectable the detector returns such a list.
\<close>

theorem issues_are_warnings:
  "(\<forall>issues. detect_ui_issues page = Inr issues \<longrightarrow>
      (\<forall>issue \<in> set issues. severity issue = ''warning'')) \<and>
   (list_all selectable (dom page) \<longrightarrow>
      (\<exists>issues. detect_ui_issues page = Inr issues \<and>
         (\<forall>issue \<in> set issues. severity issue = ''warning'')))"
proof -
  have sev: "\<forall>issue \<in> set issues. severity issue = ''warning''"
    if "detect_ui_issues page = Inr issues" for issues
    using detect_ui_issues_Inr [OF that] by (auto simp: to_issue_def)
  moreover have "\<exists>issues. detect_ui_issues page = Inr issues \<and>
      (\<forall>issue \<in> set issues. severity issue = ''warning'')"
    if "list_all selectable (dom page)"
    using detect_ui_issues_returns [OF that] sev by blast
  ultimately show ?thesis by blast
qed

lemmas script_defs = detect_ui_issues_def detection_script_def all_elements_rule_def
  overflow_rule_def z_index_rule_def empty_container_rule_def image_rule_def
  interactive_rule_def push_issue_def issue_selector_def plain_def opt_truthy_def
  make_UIIssue_def Severity_def IssueKind_def

lemma map_const_replicate: "\<forall>x \<in> set xs. f x = c \<Longrightarrow> map f xs = replicate (length xs) c"
  by (induction xs) simp_all

theorem issue_cap_witness:
  "list_all selectable (dom crowded_page) \<and>
   map_sum id length (detect_ui_issues crowded_page) = Inr 20"
proof -
  have s: "list_all selectable (dom crowded_page)"
    by (simp add: crowded_page_def selectable_def plain_def list_all_iff)
  then obtain issues where run: "detect_ui_issues crowded_page = Inr issues"
    and "length issues \<le> 20"
    using issue_cap [of crowded_page] by blast
  moreover have "map_sum id length (detect_ui_issues crowded_page) = Inr 20"
    by (simp add: script_defs crowded_page_def eval_nat_numeral)
  ultimately show ?thesis using s by simp
qed

theorem issues_are_warnings_witness:
  "list_all selectable (dom mixed_page) \<and>
   map_sum id (map severity) (detect_ui_issues mixed_page) = Inr (replicate 6 ''warning'')"
proof -
  have s: "list_all selectable (dom mixed_page)"
    by (simp add: mixed_page_def selectable_def plain_def)
  then obtain issues where run: "detect_ui_issues mixed_page = Inr issues"
    and sev: "\<forall>issue \<in> set issues. severity issue = ''warning''"
    using issues_are_warnings [of mixed_page] by blast
  have "map_sum id (map issue_type) (detect_ui_issues mixed_page) =
      Inr [''overflow_hidden'', ''z_index_conflict'', ''z_index_conflict'',
           ''empty_container'', ''accessibility_missing'', ''accessibility_missing'']"
    by (simp add: script_defs mixed_page_def)
  then have "length issues = 6" using run by auto
  with map_const_replicate [OF sev] run s show ?thesis by simp
qed

text \<open>An SVG element without id that trips a rule makes the detector raise.\<close>

lemma detect_ui_issues_raises:
  "\<not> list_all selectable (dom svg_page)"
  "detect_ui_issues svg_page = Inl PlaywrightError"
  by (simp_all add: script_defs svg_page_def selectable_def)


section \<open>Properties of the tech stack fingerprinter\<close>

text \<open>A property of the state that every check preserves holds after all checks.\<close>

lemma run_checks_invariant:
  assumes "P state" and "\<And>check st. check \<in> set checks \<Longrightarrow> P st \<Longrightarrow> P (check d st)"
  shows "P (run_checks d checks state)"
  unfolding run_checks_def using assms
  by (induction checks arbitrary: state) auto

lemma js_checks_keep_implications:
  "implications_hold result \<Longrightarrow> implications_hold (fst (check_react d (result, found)))"
  "implications_hold result \<Longrightarrow> implications_hold (fst (check_vue d (result, found)))"
  "implications_hold result \<Longrightarrow> implications_hold (fst (check_angular d (result, found)))"
  "implications_hold result \<Longrightarrow> implications_hold (fst (check_svelte d (result, found)))"
  "implications_hold result \<Longrightarrow> implications_hold (fst (check_nextjs d (result, found)))"
  "implications_hold result \<Longrightarrow> implications_hold (fst (check_nuxt d (result, found)))"
  "implications_hold result \<Longrightarrow> implications_hold (fst (check_remix d (result, found)))"
  "implications_hold result \<Longrightarrow> implications_hold (fst (check_astro d (result, found)))"
  "implications_hold result \<Longrightarrow> implications_hold (fst (check_gatsby d (result, found)))"
  "implications_hold result \<Longrightarrow> implications_hold (fst (check_vite d (result, found)))"
  "implications_hold result \<Longrightarrow> implications_hold (fst (check_jquery d (result, found)))"
  by (simp_all add: implications_hold_def check_react_def check_vue_def check_angular_def
      check_svelte_def check_nextjs_def check_nuxt_def check_remix_def check_astro_def
      check_gatsby_def check_vite_def check_jquery_def Let_def)

lemma css_checks_keep_implications:
  "implications_hold result \<Longrightarrow> implications_hold (fst (check_tailwind d (result, found)))"
  "implications_hold result \<Longrightarrow> implications_hold (fst (check_bootstrap d (result, found)))"
  "implications_hold result \<Longrightarrow> implications_hold (fst (check_material_ui d (result, found)))"
  "implications_hold result \<Longrightarrow> implications_hold (fst (check_chakra_ui d (result, found)))"
  "implications_hold result \<Longrightarrow> implications_hold (fst (check_shadcn d (result, found)))"
  "implications_hold result \<Longrightarrow> implications_hold (fst (check_ant_design d (result, found)))"
  "implications_hold result \<Longrightarrow> implications_hold (fst (check_bulma d (result, found)))"
  "implications_hold result \<Longrightarrow> implications_hold (fst (check_foundation d (result, found)))"
  "implications_hold result \<Longrightarrow> implications_hold (fst (check_css_variables d (result, found)))"
  by (simp_all add: implications_hold_def check_tailwind_def check_bootstrap_def
      check_material_ui_def check_chakra_ui_def check_shadcn_def check_ant_design_def
      check_bulma_def check_foundation_def check_css_variables_def Let_def)

lemma vanilla_keeps_implications:
  "implications_hold result \<Longrightarrow> implications_hold (fst (check_vanilla_js d (result, found)))"
  by (auto simp: implications_hold_def check_vanilla_js_def)

lemma resolve_css_approach_flags:
  "has_react (fst (resolve_css_approach d (result, found))) = has_react result"
  "has_vue (fst (resolve_css_approach d (result, found))) = has_vue result"
  "has_nextjs (fst (resolve_css_approach d (result, found))) = has_nextjs result"
  "has_nuxt (fst (resolve_css_approach d (result, found))) = has_nuxt result"
  "has_remix (fst (resolve_css_approach d (result, found))) = has_remix result"
  "has_gatsby (fst (resolve_css_approach d (result, found))) = has_gatsby result"
  by (simp_all add: resolve_css_approach_def)

lemma resolve_primary_framework_flags:
  "has_react (resolve_primary_framework result) = has_react result"
  "has_vue (resolve_primary_framework result) = has_vue result"
  "has_nextjs (resolve_primary_framework result) = has_nextjs result"
  "has_nuxt (resolve_primary_framework result) = has_nuxt result"
  "has_remix (resolve_primary_framework result) = has_remix result"
  "has_gatsby (resolve_primary_framework result) = has_gatsby result"
  by (simp_all add: resolve_primary_framework_def)

lemma checks_keep_implications:
  assumes "check \<in> set stack_checks" and "implications_hold (fst st)"
  shows "implications_hold (fst (check d st))"
proof -
  obtain result found where st: "st = (result, found)" by (cases st)
  have r: "implications_hold result" using assms(2) by (simp add: st)
  have "implications_hold (fst (resolve_css_approach d (result, found)))"
    using r by (simp add: implications_hold_def resolve_css_approach_flags)
  with assms(1) show ?thesis
    unfolding st stack_checks_def
    using js_checks_keep_implications [OF r] css_checks_keep_implications [OF r]
      vanilla_keeps_implications [OF r]
    by auto
qed

lemma finish_result_implications:
  "implications_hold (fst st) \<Longrightarrow> implications_hold (finish_result st)"
  by (cases st)
    (simp add: finish_result_def Let_def implications_hold_def resolve_primary_framework_flags)

lemma flag_implications:
  "(has_nextjs (detect_tech_stack d) \<longrightarrow> has_react (detect_tech_stack d)) \<and>
   (has_remix (detect_tech_stack d) \<longrightarrow> has_react (detect_tech_stack d)) \<and>
   (has_gatsby (detect_tech_stack d) \<longrightarrow> has_react (detect_tech_stack d)) \<and>
   (has_nuxt (detect_tech_stack d) \<longrightarrow> has_vue (detect_tech_stack d))"
proof -
  have "implications_hold (fst (new_result, []))"
    by (simp add: implications_hold_def new_result_def)
  then have "implications_hold (fst (run_checks d stack_checks (new_result, [])))"
    by (rule run_checks_invariant) (rule checks_keep_implications)
  then have "implications_hold (detect_tech_stack d)"
    unfolding detect_tech_stack_def by (rule finish_result_implications)
  then show ?thesis by (simp add: implications_hold_def)
qed


text \<open>Every check sets a meta framework flag only on the signal of that framework, and
  no check clears a framework flag.\<close>

lemmas signal_defs = nextjs_signal_def nuxt_signal_def remix_signal_def gatsby_signal_def

lemma js_checks_keep_signal:
  "flagged_on_signal d result \<Longrightarrow> flagged_on_signal d (fst (check_react d (result, found)))"
  "flagged_on_signal d result \<Longrightarrow> flagged_on_signal d (fst (check_vue d (result, found)))"
  "flagged_on_signal d result \<Longrightarrow> flagged_on_signal d (fst (check_angular d (result, found)))"
  "flagged_on_signal d result \<Longrightarrow> flagged_on_signal d (fst (check_svelte d (result, found)))"
  "flagged_on_signal d result \<Longrightarrow> flagged_on_signal d (fst (check_nextjs d (result, found)))"
  "flagged_on_signal d result \<Longrightarrow> flagged_on_signal d (fst (check_nuxt d (result, found)))"
  "flagged_on_signal d result \<Longrightarrow> flagged_on_signal d (fst (check_remix d (result, found)))"
  "flagged_on_signal d result \<Longrightarrow> flagged_on_signal d (fst (check_astro d (result, found)))"
  "flagged_on_signal d result \<Longrightarrow> flagged_on_signal d (fst (check_gatsby d (result, found)))"
  "flagged_on_signal d result \<Longrightarrow> flagged_on_signal d (fst (check_vite d (result, found)))"
  "flagged_on_signal d result \<Longrightarrow> flagged_on_signal d (fst (check_jquery d (result, found)))"
  by (auto simp: flagged_on_signal_def signal_defs check_react_def check_vue_def
      check_angular_def check_svelte_def check_nextjs_def check_nuxt_def check_remix_def
      check_astro_def check_gatsby_def check_vite_def check_jquery_def Let_def)

lemma css_checks_keep_signal:
  "flagged_on_signal d result \<Longrightarrow> flagged_on_signal d (fst (check_tailwind d (result, found)))"
  "flagged_on_signal d result \<Longrightarrow> flagged_on_signal d (fst (check_bootstrap d (result, found)))"
  "flagged_on_signal d result \<Longrightarrow> flagged_on_signal d (fst (check_material_ui d (result, found)))"
  "flagged_on_signal d result \<Longrightarrow> flagged_on_signal d (fst (check_chakra_ui d (result, found)))"
  "flagged_on_signal d result \<Longrightarrow> flagged_on_signal d (fst (check_shadcn d (result, found)))"
  "flagged_on_signal d result \<Longrightarrow> flagged_on_signal d (fst (check_ant_design d (result, found)))"
  "flagged_on_signal d result \<Longrightarrow> flagged_on_signal d (fst (check_bulma d (result, found)))"
  "flagged_on_signal d result \<Longrightarrow> flagged_on_signal d (fst (check_foundation d (result, found)))"
  "flagged_on_signal d result \<Longrightarrow> flagged_on_signal d (fst (check_css_variables d (result, found)))"
  "flagged_on_signal d result \<Longrightarrow> flagged_on_signal d (fst (check_vanilla_js d (result, found)))"
  "flagged_on_signal d result \<Longrightarrow>
     flagged_on_signal d (fst (resolve_css_approach d (result, found)))"
  by (simp_all add: flagged_on_signal_def check_tailwind_def check_bootstrap_def
      check_material_ui_def check_chakra_ui_def check_shadcn_def check_ant_design_def
      check_bulma_def check_foundation_def check_css_variables_def check_vanilla_js_def
      resolve_css_approach_flags Let_def)

lemma checks_keep_signal:
  assumes "check \<in> set stack_checks" and "flagged_on_signal d (fst st)"
  shows "flagged_on_signal d (fst (check d st))"
proof -
  obtain result found where st: "st = (result, found)" by (cases st)
  have r: "flagged_on_signal d result" using assms(2) by (simp add: st)
  from assms(1) show ?thesis
    unfolding st stack_checks_def
    using js_checks_keep_signal [OF r] css_checks_keep_signal [OF r]
    by auto
qed

lemma flagged_only_on_signal: "flagged_on_signal d (detect_tech_stack d)"
proof -
  have "flagged_on_signal d (fst (new_result, []))"
    by (simp add: flagged_on_signal_def new_result_def)
  then have "flagged_on_signal d (fst (run_checks d stack_checks (new_result, [])))"
    by (rule run_checks_invariant) (rule checks_keep_signal)
  then show ?thesis
    unfolding detect_tech_stack_def
    by (cases "run_checks d stack_checks (new_result, [])")
      (simp add: finish_result_def Let_def flagged_on_signal_def
        resolve_primary_framework_flags)
qed

lemma js_checks_keep_flags:
  "flags_kept result (fst (check_react d (result, found)))"
  "flags_kept result (fst (check_vue d (result, found)))"
  "flags_kept result (fst (check_angular d (result, found)))"
  "flags_kept result (fst (check_svelte d (result, found)))"
  "flags_kept result (fst (check_nextjs d (result, found)))"
  "flags_kept result (fst (check_nuxt d (result, found)))"
  "flags_kept result (fst (check_remix d (result, found)))"
  "flags_kept result (fst (check_astro d (result, found)))"
  "flags_kept result (fst (check_gatsby d (result, found)))"
  "flags_kept result (fst (check_vite d (result, found)))"
  "flags_kept result (fst (check_jquery d (result, found)))"
  by (simp_all add: flags_kept_def check_react_def check_vue_def
      check_angular_def check_svelte_def check_nextjs_def check_nuxt_def check_remix_def
      check_astro_def check_gatsby_def check_vite_def check_jquery_def Let_def)

lemma css_checks_keep_flags:
  "flags_kept result (fst (check_tailwind d (result, found)))"
  "flags_kept result (fst (check_bootstrap d (result, found)))"
  "flags_kept result (fst (check_material_ui d (result, found)))"
  "flags_kept result (fst (check_chakra_ui d (result, found)))"
  "flags_kept result (fst (check_shadcn d (result, found)))"
  "flags_kept result (fst (check_ant_design d (result, found)))"
  "flags_kept result (fst (check_bulma d (result, found)))"
  "flags_kept result (fst (check_foundation d (result, found)))"
  "flags_kept result (fst (check_css_variables d (result, found)))"
  "flags_kept result (fst (check_vanilla_js d (result, found)))"
  "flags_kept result (fst (resolve_css_approach d (result, found)))"
  by (simp_all add: flags_kept_def check_tailwind_def check_bootstrap_def
      check_material_ui_def check_chakra_ui_def check_shadcn_def check_ant_design_def
      check_bulma_def check_foundation_def check_css_variables_def check_vanilla_js_def
      resolve_css_approach_flags Let_def)

lemma flags_kept_trans:
  "flags_kept r r' \<Longrightarrow> flags_kept r' r'' \<Longrightarrow> flags_kept r r''"
  by (simp add: flags_kept_def)

lemma checks_keep_flags:
  assumes "check \<in> set stack_checks" and "flags_kept r (fst st)"
  shows "flags_kept r (fst (check d st))"
proof -
  obtain result found where st: "st = (result, found)" by (cases st)
  from assms(1) have "flags_kept result (fst (check d (result, found)))"
    unfolding stack_checks_def
    using js_checks_keep_flags [of result d found] css_checks_keep_flags [of result d found]
    by auto
  with assms(2) show ?thesis unfolding st by (auto intro: flags_kept_trans)
qed

text \<open>What the check at position \<open>k\<close> has flagged is flagged in the result.\<close>

lemma flags_kept_after:
  assumes "k < length stack_checks"
  shows "flags_kept
           (fst ((stack_checks ! k) d (run_checks d (take k stack_checks) (new_result, []))))
           (detect_tech_stack d)"
proof -
  let ?s = "(stack_checks ! k) d (run_checks d (take k stack_checks) (new_result, []))"
  have "stack_checks = take k stack_checks @ stack_checks ! k # drop (Suc k) stack_checks"
    using assms by (rule id_take_nth_drop)
  then have "run_checks d stack_checks (new_result, []) =
      run_checks d (take k stack_checks @ stack_checks ! k # drop (Suc k) stack_checks)
        (new_result, [])"
    by simp
  then have split: "run_checks d stack_checks (new_result, []) =
      run_checks d (drop (Suc k) stack_checks) ?s"
    by (simp add: run_checks_def)
  have "flags_kept (fst ?s) (fst ?s)" by (simp add: flags_kept_def)
  then have "flags_kept (fst ?s) (fst (run_checks d (drop (Suc k) stack_checks) ?s))"
    by (rule run_checks_invariant) (rule checks_keep_flags, erule in_set_dropD)
  then show ?thesis
    unfolding detect_tech_stack_def split
    by (cases "run_checks d (drop (Suc k) stack_checks) ?s")
      (simp add: finish_result_def Let_def flags_kept_def resolve_primary_framework_flags)
qed

lemma nextjs_signal_detected:
  assumes "nextjs_signal d"
  shows "has_nextjs (detect_tech_stack d) \<and> has_react (detect_tech_stack d)"
proof -
  let ?s = "run_checks d (take 4 stack_checks) (new_result, [])"
  have "has_nextjs (fst (check_nextjs d ?s)) \<and> has_react (fst (check_nextjs d ?s))"
    using assms by (cases ?s) (simp add: check_nextjs_def nextjs_signal_def)
  moreover have "flags_kept (fst (check_nextjs d ?s)) (detect_tech_stack d)"
    using flags_kept_after [of 4 d] by (simp add: stack_checks_def)
  ultimately show ?thesis by (simp add: flags_kept_def)
qed

lemma nuxt_signal_detected:
  assumes "nuxt_signal d"
  shows "has_nuxt (detect_tech_stack d) \<and> has_vue (detect_tech_stack d)"
proof -
  let ?s = "run_checks d (take 5 stack_checks) (new_result, [])"
  have "has_nuxt (fst (check_nuxt d ?s)) \<and> has_vue (fst (check_nuxt d ?s))"
    using assms by (cases ?s) (simp add: check_nuxt_def nuxt_signal_def)
  moreover have "flags_kept (fst (check_nuxt d ?s)) (detect_tech_stack d)"
    using flags_kept_after [of 5 d] by (simp add: stack_checks_def)
  ultimately show ?thesis by (simp add: flags_kept_def)
qed

lemma remix_signal_detected:
  assumes "remix_signal d"
  shows "has_remix (detect_tech_stack d) \<and> has_react (detect_tech_stack d)"
proof -
  let ?s = "run_checks d (take 6 stack_checks) (new_result, [])"
  have "has_remix (fst (check_remix d ?s)) \<and> has_react (fst (check_remix d ?s))"
    using assms by (cases ?s) (simp add: check_remix_def remix_signal_def)
  moreover have "flags_kept (fst (check_remix d ?s)) (detect_tech_stack d)"
    using flags_kept_after [of 6 d] by (simp add: stack_checks_def)
  ultimately show ?thesis by (simp add: flags_kept_def)
qed

lemma gatsby_signal_detected:
  assumes "gatsby_signal d"
  shows "has_gatsby (detect_tech_stack d) \<and> has_react (detect_tech_stack d)"
proof -
  let ?s = "run_checks d (take 8 stack_checks) (new_result, [])"
  have "has_gatsby (fst (check_gatsby d ?s)) \<and> has_react (fst (check_gatsby d ?s))"
    using assms by (cases ?s) (simp add: check_gatsby_def gatsby_signal_def)
  moreover have "flags_kept (fst (check_gatsby d ?s)) (detect_tech_stack d)"
    using flags_kept_after [of 8 d] by (simp add: stack_checks_def)
  ultimately show ?thesis by (simp add: flags_kept_def)
qed

text \<open>
  Claim C5. Next.js, Remix, Gatsby and Nuxt are flagged exactly on their own signals, and
  each detection sets the flag of the underlying framework: whenever a Next.js, a Remix or
  a Gatsby signal is present in the page-wide facts the result has \<open>has_react\<close>, and
  whenever a Nuxt signal is present it has \<open>has_vue\<close>, whatever the React and Vue signals
  are. So in every result a flagged Next.js, Remix or Gatsby comes with the React flag and
  a flagged Nuxt with the Vue flag.
\<close>

theorem meta_framework_implies_framework:
  "(has_nextjs (detect_tech_stack d) \<longrightarrow> has_react (detect_tech_stack d)) \<and>
   (has_remix (detect_tech_stack d) \<longrightarrow> has_react (detect_tech_stack d)) \<and>
   (has_gatsby (detect_tech_stack d) \<longrightarrow> has_react (detect_tech_stack d)) \<and>
   (has_nuxt (detect_tech_stack d) \<longrightarrow> has_vue (detect_tech_stack d)) \<and>
   (global_seen d ''__NEXT_DATA__'' \<or> ''nextjs_data'' \<in> set (htmlHints d)
      \<or> ''nextjs_root'' \<in> set (htmlHints d) \<or> list_ex (str_contains ''_next/'') (scripts d)
    \<longrightarrow> has_nextjs (detect_tech_stack d) \<and> has_react (detect_tech_stack d)) \<and>
   (global_seen d ''__remixContext'' \<or> ''remix_data'' \<in> set (htmlHints d)
    \<longrightarrow> has_remix (detect_tech_stack d) \<and> has_react (detect_tech_stack d)) \<and>
   (global_seen d ''___gatsby'' \<or> ''gatsby_data'' \<in> set (htmlHints d)
    \<longrightarrow> has_gatsby (detect_tech_stack d) \<and> has_react (detect_tech_stack d)) \<and>
   (global_seen d ''__NUXT__'' \<or> global_seen d ''$nuxt''
      \<or> ''nuxt_data'' \<in> set (htmlHints d) \<or> ''nuxt_root'' \<in> set (htmlHints d)
    \<longrightarrow> has_nuxt (detect_tech_stack d) \<and> has_vue (detect_tech_stack d)) \<and>
   (has_nextjs (detect_tech_stack d) \<longrightarrow>
      global_seen d ''__NEXT_DATA__'' \<or> ''nextjs_data'' \<in> set (htmlHints d)
      \<or> ''nextjs_root'' \<in> set (htmlHints d) \<or> list_ex (str_contains ''_next/'') (scripts d)) \<and>
   (has_remix (detect_tech_stack d) \<longrightarrow>
      global_seen d ''__remixContext'' \<or> ''remix_data'' \<in> set (htmlHints d)) \<and>
   (has_gatsby (detect_tech_stack d) \<longrightarrow>
      global_seen d ''___gatsby'' \<or> ''gatsby_data'' \<in> set (htmlHints d)) \<and>
   (has_nuxt (detect_tech_stack d) \<longrightarrow>
      global_seen d ''__NUXT__'' \<or> global_seen d ''$nuxt''
      \<or> ''nuxt_data'' \<in> set (htmlHints d) \<or> ''nuxt_root'' \<in> set (htmlHints d))"
  using flag_implications [of d] nextjs_signal_detected [of d] remix_signal_detected [of d]
    gatsby_signal_detected [of d] nuxt_signal_detected [of d] flagged_only_on_signal [of d]
  unfolding flagged_on_signal_def signal_defs by blast

theorem meta_framework_implies_framework_witness:
  "(has_nextjs (detect_tech_stack next_root_facts) \<and>
    has_react (detect_tech_stack next_root_facts) \<and>
    map name (frameworks (detect_tech_stack next_root_facts)) = [''Next.js'']) \<and>
   (has_remix (detect_tech_stack remix_context_facts) \<and>
    has_react (detect_tech_stack remix_context_facts) \<and>
    map name (frameworks (detect_tech_stack remix_context_facts)) = [''Remix'']) \<and>
   (has_gatsby (detect_tech_stack gatsby_data_facts) \<and>
    has_react (detect_tech_stack gatsby_data_facts) \<and>
    map name (frameworks (detect_tech_stack gatsby_data_facts)) = [''Gatsby'']) \<and>
   (has_nuxt (detect_tech_stack nuxt_root_facts) \<and>
    has_vue (detect_tech_stack nuxt_root_facts) \<and>
    map name (frameworks (detect_tech_stack nuxt_root_facts)) = [''Nuxt'']) \<and>
   \<not> has_nextjs (detect_tech_stack devtools_hook_facts)"
proof -
  have "''nextjs_root'' \<in> set (htmlHints next_root_facts)"
    by (simp add: next_root_facts_def no_facts_def)
  then have nx: "has_nextjs (detect_tech_stack next_root_facts) \<and>
      has_react (detect_tech_stack next_root_facts)"
    using meta_framework_implies_framework [of next_root_facts] by blast
  have "global_seen remix_context_facts ''__remixContext''"
    by (simp add: remix_context_facts_def no_facts_def global_seen_def)
  then have remix: "has_remix (detect_tech_stack remix_context_facts) \<and>
      has_react (detect_tech_stack remix_context_facts)"
    using meta_framework_implies_framework [of remix_context_facts] by blast
  have "''gatsby_data'' \<in> set (htmlHints gatsby_data_facts)"
    by (simp add: gatsby_data_facts_def no_facts_def)
  then have gatsby: "has_gatsby (detect_tech_stack gatsby_data_facts) \<and>
      has_react (detect_tech_stack gatsby_data_facts)"
    using meta_framework_implies_framework [of gatsby_data_facts] by blast
  have "''nuxt_root'' \<in> set (htmlHints nuxt_root_facts)"
    by (simp add: nuxt_root_facts_def no_facts_def)
  then have nuxt: "has_nuxt (detect_tech_stack nuxt_root_facts) \<and>
      has_vue (detect_tech_stack nuxt_root_facts)"
    using meta_framework_implies_framework [of nuxt_root_facts] by blast
  have "\<not> (global_seen devtools_hook_facts ''__NEXT_DATA__''
      \<or> ''nextjs_data'' \<in> set (htmlHints devtools_hook_facts)
      \<or> ''nextjs_root'' \<in> set (htmlHints devtools_hook_facts)
      \<or> list_ex (str_contains ''_next/'') (scripts devtools_hook_facts))"
    by (simp add: devtools_hook_facts_def no_facts_def global_seen_def)
  then have none: "\<not> has_nextjs (detect_tech_stack devtools_hook_facts)"
    using meta_framework_implies_framework [of devtools_hook_facts] by blast
  have names: "map name (frameworks (detect_tech_stack next_root_facts)) = [''Next.js'']"
    "map name (frameworks (detect_tech_stack remix_context_facts)) = [''Remix'']"
    "map name (frameworks (detect_tech_stack gatsby_data_facts)) = [''Gatsby'']"
    "map name (frameworks (detect_tech_stack nuxt_root_facts)) = [''Nuxt'']"
    by code_simp+
  from nx remix gatsby nuxt none names show ?thesis by simp
qed

lemma resolve_css_approach_value:
  "css_approach (fst (resolve_css_approach d (result, found))) =
     Some (if has_tailwind result then ''tailwind''
           else if has_bootstrap result then ''bootstrap''
           else if has_material_ui result \<or> has_chakra_ui result \<or> has_ant_design result
           then ''component-library''
           else if list_ex (str_contains ''css-'') (classNames d) then ''css-modules''
           else if inlineStylesCount d > 20 then ''inline-styles''
           else ''traditional-css'')"
  by (simp add: resolve_css_approach_def class_names_def list_ex_iff)

lemma resolve_css_approach_css_flags:
  "has_tailwind (fst (resolve_css_approach d (result, found))) = has_tailwind result"
  "has_bootstrap (fst (resolve_css_approach d (result, found))) = has_bootstrap result"
  "has_material_ui (fst (resolve_css_approach d (result, found))) = has_material_ui result"
  "has_chakra_ui (fst (resolve_css_approach d (result, found))) = has_chakra_ui result"
  "has_ant_design (fst (resolve_css_approach d (result, found))) = has_ant_design result"
  by (simp_all add: resolve_css_approach_def)

lemma css_variables_css_fields:
  "css_approach (fst (check_css_variables d (result, found))) = css_approach result"
  "has_tailwind (fst (check_css_variables d (result, found))) = has_tailwind result"
  "has_bootstrap (fst (check_css_variables d (result, found))) = has_bootstrap result"
  "has_material_ui (fst (check_css_variables d (result, found))) = has_material_ui result"
  "has_chakra_ui (fst (check_css_variables d (result, found))) = has_chakra_ui result"
  "has_ant_design (fst (check_css_variables d (result, found))) = has_ant_design result"
  by (simp_all add: check_css_variables_def)

lemma vanilla_js_css_fields:
  "css_approach (fst (check_vanilla_js d (result, found))) = css_approach result"
  "has_tailwind (fst (check_vanilla_js d (result, found))) = has_tailwind result"
  "has_bootstrap (fst (check_vanilla_js d (result, found))) = has_bootstrap result"
  "has_material_ui (fst (check_vanilla_js d (result, found))) = has_material_ui result"
  "has_chakra_ui (fst (check_vanilla_js d (result, found))) = has_chakra_ui result"
  "has_ant_design (fst (check_vanilla_js d (result, found))) = has_ant_design result"
  by (simp_all add: check_vanilla_js_def)

lemma resolve_primary_framework_css_fields:
  "css_approach (resolve_primary_framework result) = css_approach result"
  "has_tailwind (resolve_primary_framework result) = has_tailwind result"
  "has_bootstrap (resolve_primary_framework result) = has_bootstrap result"
  "has_material_ui (resolve_primary_framework result) = has_material_ui result"
  "has_chakra_ui (resolve_primary_framework result) = has_chakra_ui result"
  "has_ant_design (resolve_primary_framework result) = has_ant_design result"
  "frameworks (resolve_primary_framework result) = frameworks result"
  by (simp_all add: resolve_primary_framework_def)

lemma finish_result_css_fields:
  "css_approach (finish_result (result, found)) = css_approach result"
  "has_tailwind (finish_result (result, found)) = has_tailwind result"
  "has_bootstrap (finish_result (result, found)) = has_bootstrap result"
  "has_material_ui (finish_result (result, found)) = has_material_ui result"
  "has_chakra_ui (finish_result (result, found)) = has_chakra_ui result"
  "has_ant_design (finish_result (result, found)) = has_ant_design result"
  "frameworks (finish_result (result, found)) = found"
  by (simp_all add: finish_result_def Let_def resolve_primary_framework_css_fields)

lemma css_tail:
  "run_checks d stack_checks state =
     check_vanilla_js d (check_css_variables d (resolve_css_approach d
       (run_checks d (take 19 stack_checks) state)))"
  by (simp add: run_checks_def stack_checks_def)

text \<open>
  Claim C4. The result carries exactly one CSS approach, resolved by precedence over its
  own flags: \<open>tailwind\<close> if Tailwind is flagged, else \<open>bootstrap\<close> if Bootstrap is, else
  \<open>component-library\<close> if Material UI, Chakra UI or Ant Design is, else \<open>css-modules\<close> if a
  sampled class name contains \<open>css-\<close>, else \<open>inline-styles\<close> if more than 20 elements have
  an inline style, else \<open>traditional-css\<close>.
\<close>

theorem css_approach_precedence:
  "css_approach (detect_tech_stack d) =
     Some (if has_tailwind (detect_tech_stack d) then ''tailwind''
           else if has_bootstrap (detect_tech_stack d) then ''bootstrap''
           else if has_material_ui (detect_tech_stack d) \<or> has_chakra_ui (detect_tech_stack d)
                   \<or> has_ant_design (detect_tech_stack d)
           then ''component-library''
           else if list_ex (str_contains ''css-'') (classNames d) then ''css-modules''
           else if inlineStylesCount d > 20 then ''inline-styles''
           else ''traditional-css'')"
proof -
  obtain r0 f0 where s0: "run_checks d (take 19 stack_checks) (new_result, []) = (r0, f0)"
    by (cases "run_checks d (take 19 stack_checks) (new_result, [])")
  obtain r1 f1 where s1: "resolve_css_approach d (r0, f0) = (r1, f1)"
    by (cases "resolve_css_approach d (r0, f0)")
  obtain r2 f2 where s2: "check_css_variables d (r1, f1) = (r2, f2)"
    by (cases "check_css_variables d (r1, f1)")
  obtain r3 f3 where s3: "check_vanilla_js d (r2, f2) = (r3, f3)"
    by (cases "check_vanilla_js d (r2, f2)")
  have r: "detect_tech_stack d = finish_result (r3, f3)"
    by (simp add: detect_tech_stack_def css_tail s0 s1 s2 s3)
  have r1: "r1 = fst (resolve_css_approach d (r0, f0))" by (simp add: s1)
  have r2: "r2 = fst (check_css_variables d (r1, f1))" by (simp add: s2)
  have r3: "r3 = fst (check_vanilla_js d (r2, f2))" by (simp add: s3)
  have flags: "has_tailwind r3 = has_tailwind r0" "has_bootstrap r3 = has_bootstrap r0"
    "has_material_ui r3 = has_material_ui r0" "has_chakra_ui r3 = has_chakra_ui r0"
    "has_ant_design r3 = has_ant_design r0"
    unfolding r3 vanilla_js_css_fields r2 css_variables_css_fields r1
      resolve_css_approach_css_flags by (rule refl)+
  have "css_approach r3 = css_approach r1"
    unfolding r3 vanilla_js_css_fields r2 css_variables_css_fields by (rule refl)
  also have "\<dots> = Some (if has_tailwind r0 then ''tailwind''
           else if has_bootstrap r0 then ''bootstrap''
           else if has_material_ui r0 \<or> has_chakra_ui r0 \<or> has_ant_design r0
           then ''component-library''
           else if list_ex (str_contains ''css-'') (classNames d) then ''css-modules''
           else if inlineStylesCount d > 20 then ''inline-styles''
           else ''traditional-css'')"
    unfolding r1 by (rule resolve_css_approach_value)
  finally show ?thesis
    unfolding r finish_result_css_fields flags .
qed

theorem css_approach_precedence_witness:
  "css_approach (detect_tech_stack nuxt_bootstrap_facts) = Some ''bootstrap'' \<and>
   list_ex (str_contains ''css-'') (classNames nuxt_bootstrap_facts) \<and>
   inlineStylesCount nuxt_bootstrap_facts > 20"
proof -
  have "\<not> has_tailwind (detect_tech_stack nuxt_bootstrap_facts)"
    and "has_bootstrap (detect_tech_stack nuxt_bootstrap_facts)"
    by code_simp+
  then have "css_approach (detect_tech_stack nuxt_bootstrap_facts) = Some ''bootstrap''"
    using css_approach_precedence [of nuxt_bootstrap_facts] by simp
  moreover have "list_ex (str_contains ''css-'') (classNames nuxt_bootstrap_facts)"
    and "inlineStylesCount nuxt_bootstrap_facts > 20"
    by (simp_all add: nuxt_bootstrap_facts_def no_facts_def)
  ultimately show ?thesis by simp
qed










end
